theory Spec2Isabelle
  imports Main "HOL-Library.Word"
begin

unbundle bit_operations_syntax

section \<open>librb/src/gnutls.c: the GnuTLS transport of librb\<close>

text \<open>
  The file drives the GnuTLS engine from librb's event loop. The engine and the event
  loop are outside the file: what an engine call returns is an input of the model, and
  every call the file makes on the event loop or on the application is appended to a log
  of effects, in program order.
\<close>

subsection \<open>Constants of the headers\<close>

text \<open>Result codes of gnutls.h that the file compares against.\<close>

definition GNUTLS_E_SUCCESS :: int where "GNUTLS_E_SUCCESS = 0"
definition GNUTLS_E_AGAIN :: int where "GNUTLS_E_AGAIN = - 28"
definition GNUTLS_E_SHORT_MEMORY_BUFFER :: int where "GNUTLS_E_SHORT_MEMORY_BUFFER = - 51"
definition GNUTLS_E_INTERRUPTED :: int where "GNUTLS_E_INTERRUPTED = - 52"

text \<open>Readiness directions and descriptor type bits (rb_commio.h, commio-int.h).\<close>

definition RB_SELECT_READ :: int where "RB_SELECT_READ = 1"
definition RB_SELECT_WRITE :: int where "RB_SELECT_WRITE = 2"
definition RB_FD_SSL :: "8 word" where "RB_FD_SSL = 0x20"

text \<open>Results of the read/write shim that are not byte counts (rb_commio.h).\<close>

definition RB_RW_IO_ERROR :: int where "RB_RW_IO_ERROR = - 1"
definition RB_RW_SSL_NEED_READ :: int where "RB_RW_SSL_NEED_READ = - 3"
definition RB_RW_SSL_NEED_WRITE :: int where "RB_RW_SSL_NEED_WRITE = - 4"

text \<open>The status enumeration handed to completion callbacks (rb_commio.h).\<close>

datatype rb_status =
  RB_OK | RB_ERR_BIND | RB_ERR_DNS | RB_ERR_TIMEOUT | RB_ERR_CONNECT | RB_ERROR | RB_ERROR_SSL

subsection \<open>Data\<close>

type_synonym byte = "8 word"

text \<open>
  \<open>struct acceptdata\<close>: the peer address buffer \<open>S\<close>, its length, the completion
  callback (a function pointer, kept as its address) and the caller's opaque pointer.
\<close>

record acceptdata =
  ad_S :: "byte list"
  ad_addrlen :: int
  ad_callback :: nat
  ad_data :: nat

text \<open>
  The cipher priorities of a session: none set by the file yet, the engine's own defaults
  (\<open>gnutls_set_default_priority\<close>), or a priority cache installed by
  \<open>gnutls_priority_set\<close>, named by its handle.
\<close>

datatype priority = Priority_unset | Priority_builtin | Priority_cache nat

text \<open>
  What the file configures on a \<open>gnutls_session_t\<close> before the first handshake step.
\<close>

record gnutls_session =
  gs_server :: bool
  gs_credentials_set :: bool
  gs_dh_prime_bits :: nat
  gs_transport_ptr :: int
  gs_cert_request :: bool
  gs_priority :: priority

text \<open>
  The fields of \<open>rb_fde_t\<close> that the file reads or writes, with the registrations the
  event loop keeps for the descriptor. A null pointer is \<open>None\<close>. The type \<open>'pf\<close> is the
  type of continuations (\<open>PF *\<close>).
\<close>

record 'pf rb_fde =
  fd :: int
  fd_type :: "8 word"
  ssl :: "gnutls_session option"
  accept :: "acceptdata option"
  ssl_errno :: int
  handshake_count :: nat
  read_handler :: "('pf \<times> nat) option"
  write_handler :: "('pf \<times> nat) option"
  timeout :: "(int \<times> 'pf \<times> nat) option"

text \<open>The calls that leave the file, as logged; the descriptor is named by its \<open>fd\<close>.\<close>

datatype 'pf effect =
    Handshake int
  | Priority_set int
  | Setselect int int "'pf option" nat
  | Settimeout int int "'pf option" nat
  | Callback nat int rb_status "byte list option" int nat
  | Free_acceptdata acceptdata

text \<open>How a call can go wrong instead of returning.\<close>

datatype fault = Null_deref | Assert_failed

text \<open>
  One answer of the engine to \<open>gnutls_handshake\<close>, \<open>gnutls_record_recv\<close> or
  \<open>gnutls_record_send\<close>: the returned code, what \<open>rb_ignore_errno(errno)\<close> says about the
  \<open>errno\<close> the call left behind, and what \<open>gnutls_record_get_direction\<close> reports.
\<close>

record engine_step =
  step_ret :: int
  step_ignore_errno :: bool
  step_direction :: int

subsection \<open>The event loop's registration primitives\<close>

text \<open>
  Modelled from the spec: \<open>rb_setselect\<close> (commio, not in this file) is the readiness
  registration \<open>register_interest(descriptor, direction, continuation, opaque)\<close>: for each
  direction in \<open>flags\<close> it stores the continuation, and a null continuation clears the
  registration.
\<close>

definition rb_setselect ::
  "'pf rb_fde \<Rightarrow> 'pf effect list \<Rightarrow> int \<Rightarrow> 'pf option \<Rightarrow> nat \<Rightarrow> 'pf rb_fde \<times> 'pf effect list" where
  "rb_setselect F tr flags handler data =
     (let reg = map_option (\<lambda>h. (h, data)) handler;
          F1 = (if flags AND RB_SELECT_READ \<noteq> 0 then F\<lparr>read_handler := reg\<rparr> else F);
          F2 = (if flags AND RB_SELECT_WRITE \<noteq> 0 then F1\<lparr>write_handler := reg\<rparr> else F1)
      in (F2, tr @ [Setselect (fd F) flags handler data]))"

text \<open>
  Modelled from the spec: \<open>rb_settimeout\<close> (commio, not in this file) is the timer
  registration: \<open>arm_timeout(descriptor, duration, continuation, opaque)\<close> with a
  continuation, \<open>cancel_timeout(descriptor)\<close> with a null one.
\<close>

definition rb_settimeout ::
  "'pf rb_fde \<Rightarrow> 'pf effect list \<Rightarrow> int \<Rightarrow> 'pf option \<Rightarrow> nat \<Rightarrow> 'pf rb_fde \<times> 'pf effect list" where
  "rb_settimeout F tr t handler data =
     (F\<lparr>timeout := map_option (\<lambda>h. (t, h, data)) handler\<rparr>,
      tr @ [Settimeout (fd F) t handler data])"

subsection \<open>The handshake driver\<close>

text \<open>
  \<open>do_ssl_handshake(F, callback, data)\<close>: one \<open>gnutls_handshake\<close> step on the session
  \<open>SSL_P(F)\<close>, whose answer is \<open>e\<close>. Returns the C result with the updated descriptor
  and log.
\<close>

definition do_ssl_handshake ::
  "engine_step \<Rightarrow> 'pf rb_fde \<Rightarrow> 'pf effect list \<Rightarrow> 'pf \<Rightarrow> nat
     \<Rightarrow> fault + (int \<times> 'pf rb_fde \<times> 'pf effect list)" where
  "do_ssl_handshake e F tr callback data =
     (case ssl F of
        None \<Rightarrow> Inl Null_deref
      | Some s \<Rightarrow>
          (let ret = step_ret e; tr1 = tr @ [Handshake (fd F)] in
           if ret < 0 then
             (if (ret = GNUTLS_E_INTERRUPTED \<and> step_ignore_errno e) \<or> ret = GNUTLS_E_AGAIN then
                (let flags = (if step_direction e = 0 then RB_SELECT_READ else RB_SELECT_WRITE);
                     (F1, tr2) = rb_setselect F tr1 flags (Some callback) data
                 in Inr (0, F1, tr2))
              else Inr (- 1, F\<lparr>ssl_errno := ret\<rparr>, tr1))
           else Inr (1, F, tr1)))"

subsection \<open>The accept flow\<close>

text \<open>The two continuations the accept flow registers with the event loop.\<close>

datatype PF = PF_rb_ssl_tryaccept | PF_rb_ssl_timeout

type_synonym fde = "PF rb_fde"
type_synonym effects = "PF effect list"

text \<open>
  \<open>rb_ssl_timeout(F, notused)\<close>: the timer continuation. The completion callback is
  application code: its invocation is logged, and what it does to \<open>F\<close> is not part of
  this file. A failed \<open>lrb_assert\<close> ends the call in the model.
\<close>

definition rb_ssl_timeout :: "fde \<Rightarrow> effects \<Rightarrow> fault + (fde \<times> effects)" where
  "rb_ssl_timeout F tr =
     (case accept F of
        None \<Rightarrow> Inl Assert_failed
      | Some ad \<Rightarrow>
          Inr (F, tr @ [Callback (ad_callback ad) (fd F) RB_ERR_TIMEOUT None 0 (ad_data ad)]))"

text \<open>\<open>rb_ssl_tryaccept(F, data)\<close>: the readiness continuation of the accept flow.\<close>

definition rb_ssl_tryaccept :: "engine_step \<Rightarrow> fde \<Rightarrow> effects \<Rightarrow> fault + (fde \<times> effects)" where
  "rb_ssl_tryaccept e F tr =
     (case accept F of
        None \<Rightarrow> Inl Assert_failed
      | Some a \<Rightarrow>
          (case do_ssl_handshake e F tr PF_rb_ssl_tryaccept 0 of
             Inl x \<Rightarrow> Inl x
           | Inr (ret, F1, tr1) \<Rightarrow>
               if ret = 0 then Inr (F1, tr1)
               else
                 (case accept F1 of
                    None \<Rightarrow> Inl Null_deref
                  | Some ad \<Rightarrow>
                      (let F2 = F1\<lparr>accept := None\<rparr>;
                           (F3, tr3) = rb_settimeout F2 tr1 0 None 0;
                           (F4, tr4) =
                             rb_setselect F3 tr3 (RB_SELECT_READ OR RB_SELECT_WRITE) None 0;
                           tr5 =
                             (if ret > 0 then
                                tr4 @ [Callback (ad_callback ad) (fd F4) RB_OK
                                         (Some (ad_S ad)) (ad_addrlen ad) (ad_data ad)]
                              else
                                tr4 @ [Callback (ad_callback ad) (fd F4) RB_ERROR_SSL
                                         None 0 (ad_data ad)])
                       in Inr (F4, tr5 @ [Free_acceptdata ad])))))"

text \<open>
  \<open>sizeof(struct rb_sockaddr_storage)\<close>; \<open>rb_malloc\<close> returns zeroed memory, so a
  fresh \<open>struct acceptdata\<close> is all zero.
\<close>

definition sockaddr_storage_size :: nat where "sockaddr_storage_size = 128"

definition new_acceptdata :: acceptdata where
  "new_acceptdata =
     \<lparr>ad_S = replicate sockaddr_storage_size 0, ad_addrlen = 0, ad_callback = 0, ad_data = 0\<rparr>"

text \<open>
  The engine calls that set a server session up, from \<open>gnutls_init\<close> to
  \<open>gnutls_certificate_server_set_request\<close>, on the session bound to descriptor \<open>d\<close>.
\<close>

definition server_session :: "int \<Rightarrow> gnutls_session" where
  "server_session d =
     \<lparr>gs_server = True, gs_credentials_set = True, gs_dh_prime_bits = 1024,
      gs_transport_ptr = d, gs_cert_request = True, gs_priority = Priority_builtin\<rparr>"

text \<open>
  \<open>rb_ssl_start_accepted(new_F, cb, data, timeout)\<close>; \<open>dp\<close> is the handle in the static
  \<open>default_priority\<close>, and \<open>e\<close> the engine's answer to the first handshake step.
\<close>

definition rb_ssl_start_accepted ::
  "nat \<Rightarrow> engine_step \<Rightarrow> fde \<Rightarrow> effects \<Rightarrow> nat \<Rightarrow> nat \<Rightarrow> int \<Rightarrow> fault + (fde \<times> effects)" where
  "rb_ssl_start_accepted dp e new_F tr cb data tmo =
     (let N1 = new_F\<lparr>fd_type := fd_type new_F OR RB_FD_SSL\<rparr>;
          a1 = new_acceptdata\<lparr>ad_callback := cb, ad_data := data\<rparr>;
          (N3, tr3) = rb_settimeout (N1\<lparr>accept := Some a1\<rparr>) tr tmo (Some PF_rb_ssl_timeout) 0;
          N4 = N3\<lparr>accept := Some (a1\<lparr>ad_addrlen := 0\<rparr>)\<rparr>;
          N5 = N4\<lparr>ssl := Some ((server_session (fd N4))\<lparr>gs_priority := Priority_cache dp\<rparr>)\<rparr>;
          tr5 = tr3 @ [Priority_set (fd N5)]
      in case do_ssl_handshake e N5 tr5 PF_rb_ssl_tryaccept 0 of
           Inl x \<Rightarrow> Inl x
         | Inr (ret, N6, tr6) \<Rightarrow>
             if ret \<noteq> 0 then
               (case accept N6 of
                  None \<Rightarrow> Inl Null_deref
                | Some ad \<Rightarrow>
                    Inr (N6\<lparr>accept := None\<rparr>,
                         tr6 @ [Callback (ad_callback ad) (fd N6) RB_OK
                                  (Some (ad_S ad)) (ad_addrlen ad) (ad_data ad),
                                Free_acceptdata ad]))
             else Inr (N6, tr6))"

text \<open>
  \<open>memcpy(dst, src, n)\<close> on byte buffers, for \<open>n\<close> within both; the file checks no
  length before it copies.
\<close>

definition memcpy :: "byte list \<Rightarrow> byte list \<Rightarrow> nat \<Rightarrow> byte list" where
  "memcpy dst src n = take n src @ drop n dst"

text \<open>
  A session as \<open>gnutls_init(session, GNUTLS_SERVER)\<close> leaves it: the file has set
  nothing on it yet.
\<close>

definition gnutls_init_server :: gnutls_session where
  "gnutls_init_server =
     \<lparr>gs_server = True, gs_credentials_set = False, gs_dh_prime_bits = 0,
      gs_transport_ptr = 0, gs_cert_request = False, gs_priority = Priority_unset\<rparr>"

text \<open>
  The five calls from \<open>gnutls_set_default_priority\<close> to
  \<open>gnutls_certificate_server_set_request\<close> on a session \<open>s\<close>, with \<open>d\<close> the descriptor
  given to \<open>gnutls_transport_set_ptr\<close>.
\<close>

definition configure_server :: "int \<Rightarrow> gnutls_session \<Rightarrow> gnutls_session" where
  "configure_server d s =
     s\<lparr>gs_priority := Priority_builtin, gs_credentials_set := True, gs_dh_prime_bits := 1024,
       gs_transport_ptr := d, gs_cert_request := True\<rparr>"

text \<open>
  \<open>rb_ssl_accept_setup(F, new_F, st, addrlen)\<close>: \<open>F\<close> is the listening descriptor,
  \<open>new_F\<close> the accepted one (two distinct objects); returns both.

  The macro \<open>SSL_P(x)\<close> is defined as \<open>*((gnutls_session_t *)F->ssl)\<close>: it does not use
  its argument and reads \<open>ssl\<close> of whatever \<open>F\<close> names where it is expanded. In this
  function \<open>F\<close> is the listener, so \<open>SSL_P(new_F)\<close> on lines 196 to 200 is the listener's
  session as much as \<open>SSL_P(F)\<close> on line 201 is. Only \<open>gnutls_init\<close> on line 195, which
  is given \<open>new_F->ssl\<close> itself, reaches the session of \<open>new_F\<close>. The descriptor passed
  to \<open>gnutls_transport_set_ptr\<close> is \<open>rb_get_fd(new_F)\<close>.
\<close>

definition rb_ssl_accept_setup ::
  "nat \<Rightarrow> engine_step \<Rightarrow> fde \<Rightarrow> fde \<Rightarrow> effects \<Rightarrow> byte list \<Rightarrow> int
     \<Rightarrow> fault + (fde \<times> fde \<times> effects)" where
  "rb_ssl_accept_setup dp e F new_F tr st addrlen =
     (case accept F of
        None \<Rightarrow> Inl Null_deref
      | Some lad \<Rightarrow>
          (let N1 = new_F\<lparr>fd_type := fd_type new_F OR RB_FD_SSL\<rparr>;
               a1 = new_acceptdata\<lparr>ad_callback := ad_callback lad, ad_data := ad_data lad\<rparr>;
               (N2, tr2) =
                 rb_settimeout (N1\<lparr>accept := Some a1\<rparr>) tr 10 (Some PF_rb_ssl_timeout) 0;
               a2 = a1\<lparr>ad_S := memcpy (ad_S a1) st (nat addrlen), ad_addrlen := addrlen\<rparr>;
               N3 = N2\<lparr>accept := Some a2, ssl := Some gnutls_init_server\<rparr>
           in case ssl F of
                None \<Rightarrow> Inl Null_deref
              | Some ls \<Rightarrow>
                  (let ls1 = configure_server (fd N3) ls;
                       F1 = F\<lparr>ssl := Some (ls1\<lparr>gs_priority := Priority_cache dp\<rparr>)\<rparr>;
                       tr3 = tr2 @ [Priority_set (fd F1)]
                   in case do_ssl_handshake e F1 tr3 PF_rb_ssl_tryaccept 0 of
                        Inl x \<Rightarrow> Inl x
                      | Inr (ret, F2, tr4) \<Rightarrow>
                          if ret \<noteq> 0 then
                            (case accept F2 of
                               None \<Rightarrow> Inl Null_deref
                             | Some ad \<Rightarrow>
                                 Inr (F2\<lparr>accept := None\<rparr>, N3,
                                      tr4 @ [Callback (ad_callback ad) (fd F2) RB_OK
                                               (Some (ad_S ad)) (ad_addrlen ad) (ad_data ad),
                                             Free_acceptdata ad]))
                          else Inr (F2, N3, tr4))))"

subsection \<open>Events of the event loop\<close>

text \<open>
  An event carries the answer the engine gives if the continuation it wakes asks for a
  handshake step.
\<close>

datatype event = Readable engine_step | Writable engine_step | Timer_expired engine_step

fun run_PF :: "PF \<Rightarrow> engine_step \<Rightarrow> fde \<Rightarrow> effects \<Rightarrow> fault + (fde \<times> effects)" where
  "run_PF PF_rb_ssl_tryaccept e F tr = rb_ssl_tryaccept e F tr"
| "run_PF PF_rb_ssl_timeout e F tr = rb_ssl_timeout F tr"

text \<open>
  Modelled from the spec: the event loop's dispatch (commio, not in this file). A
  registered continuation is "invoked once, caller must re-register for further
  waiting": the registration is taken off the descriptor and the continuation called. An
  event with no registration does nothing.
\<close>

fun deliver :: "event \<Rightarrow> fde \<Rightarrow> effects \<Rightarrow> fault + (fde \<times> effects)" where
  "deliver (Readable e) F tr =
     (case read_handler F of
        None \<Rightarrow> Inr (F, tr)
      | Some (h, d) \<Rightarrow> run_PF h e (F\<lparr>read_handler := None\<rparr>) tr)"
| "deliver (Writable e) F tr =
     (case write_handler F of
        None \<Rightarrow> Inr (F, tr)
      | Some (h, d) \<Rightarrow> run_PF h e (F\<lparr>write_handler := None\<rparr>) tr)"
| "deliver (Timer_expired e) F tr =
     (case timeout F of
        None \<Rightarrow> Inr (F, tr)
      | Some (t, h, d) \<Rightarrow> run_PF h e (F\<lparr>timeout := None\<rparr>) tr)"

fun run :: "event list \<Rightarrow> fde \<Rightarrow> effects \<Rightarrow> fault + (fde \<times> effects)" where
  "run [] F tr = Inr (F, tr)"
| "run (ev # evs) F tr =
     (case deliver ev F tr of
        Inl x \<Rightarrow> Inl x
      | Inr (F1, tr1) \<Rightarrow> run evs F1 tr1)"

text \<open>Whether an event is a timer expiry.\<close>

fun is_timer :: "event \<Rightarrow> bool" where
  "is_timer (Timer_expired e) = True"
| "is_timer (Readable e) = False"
| "is_timer (Writable e) = False"

text \<open>
  Two kinds of descriptor in the accept flow. One is handshaking: it has a session and
  an accept context, and any readiness registration it has is of \<open>rb_ssl_tryaccept\<close>.
  The other has no readiness registration.
\<close>

definition handshaking :: "fde \<Rightarrow> bool" where
  "handshaking F =
     (ssl F \<noteq> None \<and> accept F \<noteq> None
      \<and> read_handler F \<in> {None, Some (PF_rb_ssl_tryaccept, 0)}
      \<and> write_handler F \<in> {None, Some (PF_rb_ssl_tryaccept, 0)})"

definition unregistered :: "fde \<Rightarrow> bool" where
  "unregistered F = (read_handler F = None \<and> write_handler F = None)"

text \<open>The completion callbacks in a log, as their statuses in order.\<close>

fun callback_statuses :: "'pf effect list \<Rightarrow> rb_status list" where
  "callback_statuses [] = []"
| "callback_statuses (Callback cb d s a l p # tr) = s # callback_statuses tr"
| "callback_statuses (x # tr) = callback_statuses tr"


subsection \<open>A server-side session from its start\<close>

text \<open>
  A session started by \<open>rb_ssl_start_accepted\<close> on \<open>new_F\<close>, with \<open>e\<close> the engine's answer
  to the first handshake step, followed by the events \<open>evs\<close> of the event loop.
\<close>

definition accepted_session ::
  "nat \<Rightarrow> engine_step \<Rightarrow> fde \<Rightarrow> nat \<Rightarrow> nat \<Rightarrow> int \<Rightarrow> event list \<Rightarrow> fault + (fde \<times> effects)" where
  "accepted_session dp e new_F cb data tmo evs =
     (case rb_ssl_start_accepted dp e new_F [] cb data tmo of
        Inl x \<Rightarrow> Inl x
      | Inr (F, tr) \<Rightarrow> run evs F tr)"

text \<open>The statuses of the completion callbacks a run has invoked, if it returned.\<close>

definition callbacks_of :: "fault + (fde \<times> effects) \<Rightarrow> fault + rb_status list" where
  "callbacks_of r = (case r of Inl x \<Rightarrow> Inl x | Inr (F, tr) \<Rightarrow> Inr (callback_statuses tr))"

text \<open>The descriptor a run ends with, if it returned.\<close>

definition fde_of :: "fault + (fde \<times> effects) \<Rightarrow> fde option" where
  "fde_of r = (case r of Inl x \<Rightarrow> None | Inr (F, tr) \<Rightarrow> Some F)"

text \<open>The log without the contents of address buffers: each effect by its kind.\<close>

datatype effect_kind =
  K_handshake int | K_priority_set int | K_setselect int int bool | K_settimeout int int bool
  | K_callback int rb_status | K_free

fun kind_of :: "PF effect \<Rightarrow> effect_kind" where
  "kind_of (Handshake d) = K_handshake d"
| "kind_of (Priority_set d) = K_priority_set d"
| "kind_of (Setselect d fl h p) = K_setselect d fl (h \<noteq> None)"
| "kind_of (Settimeout d t h p) = K_settimeout d t (h \<noteq> None)"
| "kind_of (Callback cb d st a l p) = K_callback d st"
| "kind_of (Free_acceptdata a) = K_free"

definition log_of :: "fault + (fde \<times> effects) \<Rightarrow> fault + effect_kind list" where
  "log_of r = (case r of Inl x \<Rightarrow> Inl x | Inr (F, tr) \<Rightarrow> Inr (map kind_of tr))"

subsection \<open>The read/write shim\<close>

definition EIO :: int where "EIO = 5"

text \<open>
  \<open>rb_ssl_read_or_write(r_or_w, F, rbuf, wbuf, count)\<close>. \<open>e_recv\<close> is the engine's answer
  to \<open>gnutls_record_recv\<close> and \<open>e_send\<close> its answer to \<open>gnutls_record_send\<close>; only the
  call that \<open>r_or_w\<close> selects is made. The result is the returned \<open>ssize_t\<close>, the
  descriptor, and the value assigned to \<open>errno\<close>, if any.
\<close>

definition rb_ssl_read_or_write ::
  "int \<Rightarrow> engine_step \<Rightarrow> engine_step \<Rightarrow> 'pf rb_fde \<Rightarrow> fault + (int \<times> 'pf rb_fde \<times> int option)" where
  "rb_ssl_read_or_write r_or_w e_recv e_send F =
     (case ssl F of
        None \<Rightarrow> Inl Null_deref
      | Some s \<Rightarrow>
          (let e = (if r_or_w = 0 then e_recv else e_send); ret = step_ret e in
           if ret < 0 then
             (if (ret = GNUTLS_E_AGAIN \<or> ret = GNUTLS_E_INTERRUPTED) \<and> step_ignore_errno e then
                (if step_direction e = 0 then Inr (RB_RW_SSL_NEED_READ, F, None)
                 else Inr (RB_RW_SSL_NEED_WRITE, F, None))
              else Inr (RB_RW_IO_ERROR, F\<lparr>ssl_errno := ret\<rparr>, Some EIO))
           else Inr (ret, F, None)))"

definition rb_ssl_read ::
  "engine_step \<Rightarrow> engine_step \<Rightarrow> 'pf rb_fde \<Rightarrow> fault + (int \<times> 'pf rb_fde \<times> int option)" where
  "rb_ssl_read e_recv e_send F = rb_ssl_read_or_write 0 e_recv e_send F"

definition rb_ssl_write ::
  "engine_step \<Rightarrow> engine_step \<Rightarrow> 'pf rb_fde \<Rightarrow> fault + (int \<times> 'pf rb_fde \<times> int option)" where
  "rb_ssl_write e_recv e_send F = rb_ssl_read_or_write 1 e_recv e_send F"

subsection \<open>Loading files\<close>

text \<open>What \<open>fopen\<close> and \<open>fstat\<close> find at a path.\<close>

datatype file_state = No_such_file | Stat_failure | File_bytes "byte list"

text \<open>
  \<open>rb_load_file_into_datum_t(file)\<close>: the first 131072 bytes at most, read as one item;
  \<open>fread\<close> of an item of size 0 returns 0, so an empty file gives \<open>NULL\<close> as a missing
  one does. A datum is its bytes (\<open>size\<close> is their number).
\<close>

definition rb_load_file_into_datum_t :: "(string \<Rightarrow> file_state) \<Rightarrow> string \<Rightarrow> byte list option" where
  "rb_load_file_into_datum_t fs path =
     (case fs path of
        No_such_file \<Rightarrow> None
      | Stat_failure \<Rightarrow> None
      | File_bytes bs \<Rightarrow>
          (let size = (if 131072 < length bs then 131072 else length bs);
               count = (if size = 0 then 0 else (1::nat))
           in if count \<noteq> 1 then None else Some (take size bs)))"

subsection \<open>The credential store and its setup\<close>

definition MAX_CERTS :: nat where "MAX_CERTS = 6"

datatype privkey = Key_null | Key_empty | Key_of "byte list"
datatype dh = Dh_null | Dh_empty | Dh_of "byte list"

text \<open>
  The credentials object behind the static \<open>x509\<close>: the certificate and key pairs given
  to \<open>gnutls_certificate_set_x509_key_mem\<close> and the DH parameters given to
  \<open>gnutls_certificate_set_dh_params\<close>.
\<close>

record x509_cred =
  xc_key_mem :: "(byte list \<times> byte list) list"
  xc_dh :: "dh option"

text \<open>The statics of the file. A certificate is kept as the bytes it was parsed from.\<close>

record cred_store =
  x509 :: x509_cred
  dh_params :: dh
  default_priority :: nat
  x509_cert_count :: nat
  x509_cert :: "byte list list"
  x509_key :: privkey

text \<open>
  The engine calls of setup, as functions of what the file passes them:
  the result of \<open>gnutls_x509_privkey_import\<close> on a datum; the certificates the PEM
  parser finds in a datum (\<open>None\<close> when it does not parse); the result of
  \<open>gnutls_certificate_set_x509_key_mem\<close>; of \<open>gnutls_dh_params_init\<close>; of
  \<open>gnutls_dh_params_import_pkcs3\<close>; and, for \<open>gnutls_priority_init\<close> on a policy string
  (\<open>None\<close> is \<open>NULL\<close>, the built-in default policy), the result, the handle written
  and the error position.
\<close>

record setup_engine =
  x509_privkey_import :: "byte list \<Rightarrow> int"
  pem_certificates :: "byte list \<Rightarrow> byte list list option"
  certificate_set_x509_key_mem :: "byte list \<Rightarrow> byte list \<Rightarrow> int"
  dh_params_init :: int
  dh_params_import_pkcs3 :: "byte list \<Rightarrow> int"
  priority_init :: "string option \<Rightarrow> int \<times> nat \<times> string"

definition GNUTLS_E_BASE64_DECODING_ERROR :: int where "GNUTLS_E_BASE64_DECODING_ERROR = - 34"

text \<open>
  \<open>gnutls_x509_crt_list_import(certs, &cert_max, data, PEM,
  GNUTLS_X509_CRT_LIST_IMPORT_FAIL_IF_EXCEED)\<close>, the engine's documented behaviour
  under the flag the file passes: with more certificates in \<open>data\<close> than \<open>cert_max\<close> the
  call fails with \<open>GNUTLS_E_SHORT_MEMORY_BUFFER\<close> and reports the number found in
  \<open>cert_max\<close>; otherwise it returns the number imported. The result is the returned
  code, the new \<open>cert_max\<close> and the array.
\<close>

definition gnutls_x509_crt_list_import ::
  "setup_engine \<Rightarrow> byte list list \<Rightarrow> nat \<Rightarrow> byte list \<Rightarrow> int \<times> nat \<times> byte list list" where
  "gnutls_x509_crt_list_import eng certs cert_max d =
     (case pem_certificates eng d of
        None \<Rightarrow> (GNUTLS_E_BASE64_DECODING_ERROR, cert_max, certs)
      | Some cs \<Rightarrow>
          if cert_max < length cs then
            (GNUTLS_E_SHORT_MEMORY_BUFFER, length cs, take cert_max cs @ drop cert_max certs)
          else (int (length cs), length cs, cs @ drop (length cs) certs))"

text \<open>The calls of \<open>rb_lib_log\<close> in setup, by message.\<close>

datatype log_msg =
    Log_no_certificate_file
  | Log_error_loading_certificate
  | Log_error_loading_key
  | Log_error_loading_key_file int
  | Log_error_importing_certificate int
  | Log_error_loading_certificate_or_key int
  | Log_error_parsing_dh_file int
  | Log_unable_to_setup_dh
  | Log_cipher_list_syntax_error string

text \<open>
  The DH part of setup (\<open>if(dhfile != NULL) ...\<close>), after the certificate and key
  are installed.
\<close>

definition setup_dh ::
  "setup_engine \<Rightarrow> (string \<Rightarrow> file_state) \<Rightarrow> cred_store \<Rightarrow> log_msg list \<Rightarrow> string option
     \<Rightarrow> cred_store \<times> log_msg list" where
  "setup_dh eng fs st lg dhfile =
     (case dhfile of
        None \<Rightarrow> (st, lg)
      | Some path \<Rightarrow>
          if dh_params_init eng = GNUTLS_E_SUCCESS then
            (let (dhp, lg1) =
               (case rb_load_file_into_datum_t fs path of
                  None \<Rightarrow> (Dh_empty, lg)
                | Some dat \<Rightarrow>
                    (let xret = dh_params_import_pkcs3 eng dat in
                     if xret < 0 then (Dh_empty, lg @ [Log_error_parsing_dh_file xret])
                     else (Dh_of dat, lg)))
             in (st\<lparr>dh_params := dhp, x509 := (x509 st)\<lparr>xc_dh := Some dhp\<rparr>\<rparr>, lg1))
          else (st, lg @ [Log_unable_to_setup_dh]))"

text \<open>The cipher policy part of setup, with the value setup returns.\<close>

definition setup_priority ::
  "setup_engine \<Rightarrow> cred_store \<Rightarrow> log_msg list \<Rightarrow> string option \<Rightarrow> int \<times> cred_store \<times> log_msg list" where
  "setup_priority eng st lg cipher_list =
     (let (ret, h, err) = priority_init eng cipher_list;
          st1 = st\<lparr>default_priority := h\<rparr>
      in if ret < 0 then
           (let (ret2, h2, err2) = priority_init eng None
            in (1, st1\<lparr>default_priority := h2\<rparr>, lg @ [Log_cipher_list_syntax_error err]))
         else (1, st1, lg))"

text \<open>
  \<open>rb_setup_ssl_server(cert, keyfile, dhfile, cipher_list)\<close> on the statics \<open>st\<close>:
  the returned \<open>int\<close>, the statics afterwards and the messages logged. A \<open>NULL\<close>
  \<open>keyfile\<close> reaches \<open>fopen\<close>.
\<close>

definition rb_setup_ssl_server ::
  "setup_engine \<Rightarrow> (string \<Rightarrow> file_state) \<Rightarrow> cred_store
     \<Rightarrow> string option \<Rightarrow> string option \<Rightarrow> string option \<Rightarrow> string option
     \<Rightarrow> fault + (int \<times> cred_store \<times> log_msg list)" where
  "rb_setup_ssl_server eng fs st cert keyfile dhfile cipher_list =
     (case cert of
        None \<Rightarrow> Inr (0, st, [Log_no_certificate_file])
      | Some cert_path \<Rightarrow>
     (case rb_load_file_into_datum_t fs cert_path of
        None \<Rightarrow> Inr (0, st, [Log_error_loading_certificate])
      | Some d_cert \<Rightarrow>
     (case keyfile of
        None \<Rightarrow> Inl Null_deref
      | Some key_path \<Rightarrow>
     (case rb_load_file_into_datum_t fs key_path of
        None \<Rightarrow> Inr (0, st, [Log_error_loading_key])
      | Some d_key \<Rightarrow>
          (let st1 = st\<lparr>x509_key := Key_empty\<rparr>;
               ret = x509_privkey_import eng d_key
           in if ret \<noteq> GNUTLS_E_SUCCESS then Inr (0, st1, [Log_error_loading_key_file ret])
              else
                (let st2 = st1\<lparr>x509_key := Key_of d_key, x509_cert_count := MAX_CERTS\<rparr>;
                     (ret, cnt, certs) =
                       gnutls_x509_crt_list_import eng (x509_cert st2) (x509_cert_count st2) d_cert;
                     st3 = st2\<lparr>x509_cert := certs, x509_cert_count := cnt\<rparr>
                 in if ret < 0 then Inr (0, st3, [Log_error_importing_certificate ret])
                    else
                      (let st4 = st3\<lparr>x509_cert_count := nat ret\<rparr>;
                           ret = certificate_set_x509_key_mem eng d_cert d_key
                       in if ret \<noteq> GNUTLS_E_SUCCESS
                          then Inr (0, st4, [Log_error_loading_certificate_or_key ret])
                          else
                            (let st5 = st4\<lparr>x509 := (x509 st4)
                                         \<lparr>xc_key_mem := xc_key_mem (x509 st4) @ [(d_cert, d_key)]\<rparr>\<rparr>;
                                 (st6, lg6) = setup_dh eng fs st5 [] dhfile
                             in Inr (setup_priority eng st6 lg6 cipher_list)))))))))"

text \<open>What a call of setup returned, and the statics it left, if it returned.\<close>

definition setup_return :: "fault + (int \<times> cred_store \<times> log_msg list) \<Rightarrow> int option" where
  "setup_return r = (case r of Inl x \<Rightarrow> None | Inr (ret, st, lg) \<Rightarrow> Some ret)"

definition setup_store :: "fault + (int \<times> cred_store \<times> log_msg list) \<Rightarrow> cred_store option" where
  "setup_store r = (case r of Inl x \<Rightarrow> None | Inr (ret, st, lg) \<Rightarrow> Some st)"

definition setup_log :: "fault + (int \<times> cred_store \<times> log_msg list) \<Rightarrow> log_msg list option" where
  "setup_log r = (case r of Inl x \<Rightarrow> None | Inr (ret, st, lg) \<Rightarrow> Some lg)"

subsection \<open>Certificate fingerprints\<close>

text \<open>Methods and lengths of rb_commio.h.\<close>

definition RB_SSL_CERTFP_LEN :: nat where "RB_SSL_CERTFP_LEN = 64"
definition RB_SSL_CERTFP_METH_CERT_SHA1 :: int where "RB_SSL_CERTFP_METH_CERT_SHA1 = 0x0000"
definition RB_SSL_CERTFP_METH_CERT_SHA256 :: int where "RB_SSL_CERTFP_METH_CERT_SHA256 = 0x0001"
definition RB_SSL_CERTFP_METH_CERT_SHA512 :: int where "RB_SSL_CERTFP_METH_CERT_SHA512 = 0x0002"
definition RB_SSL_CERTFP_METH_SPKI_SHA256 :: int where "RB_SSL_CERTFP_METH_SPKI_SHA256 = 0x1001"
definition RB_SSL_CERTFP_METH_SPKI_SHA512 :: int where "RB_SSL_CERTFP_METH_SPKI_SHA512 = 0x1002"
definition RB_SSL_CERTFP_LEN_SHA1 :: nat where "RB_SSL_CERTFP_LEN_SHA1 = 20"
definition RB_SSL_CERTFP_LEN_SHA256 :: nat where "RB_SSL_CERTFP_LEN_SHA256 = 32"
definition RB_SSL_CERTFP_LEN_SHA512 :: nat where "RB_SSL_CERTFP_LEN_SHA512 = 64"

datatype digest_algorithm = GNUTLS_DIG_SHA1 | GNUTLS_DIG_SHA256 | GNUTLS_DIG_SHA512

text \<open>
  The engine calls of fingerprinting, as functions of what the file passes them. A
  certificate handle is the bytes it was imported from.
  \<^item> \<open>crt_get_fingerprint cert algo size\<close>: \<open>gnutls_x509_crt_get_fingerprint\<close>, where
    \<open>size\<close> is what \<open>*buf_size\<close> holds on entry; the result and the bytes written.
  \<^item> \<open>pubkey_init\<close>, \<open>pubkey_import_x509 cert\<close>: the results of the two calls.
  \<^item> \<open>pubkey_export cert size\<close>: \<open>gnutls_pubkey_export\<close> to DER with \<open>size\<close> bytes
    offered; the result, the size reported back and the bytes written.
  \<^item> \<open>hash_fast algo bytes\<close>: \<open>gnutls_hash_fast\<close>; the result and the digest written.
  \<^item> \<open>crt_init\<close>, \<open>crt_import_pem datum\<close>: \<open>gnutls_x509_crt_init\<close> and
    \<open>gnutls_x509_crt_import\<close>; the result (and the certificate).
\<close>

record fp_engine =
  crt_get_fingerprint :: "byte list \<Rightarrow> digest_algorithm \<Rightarrow> nat \<Rightarrow> int \<times> byte list"
  pubkey_init :: int
  pubkey_import_x509 :: "byte list \<Rightarrow> int"
  pubkey_export :: "byte list \<Rightarrow> nat \<Rightarrow> int \<times> nat \<times> byte list"
  hash_fast :: "digest_algorithm \<Rightarrow> byte list \<Rightarrow> int \<times> byte list"
  crt_init :: int
  crt_import_pem :: "byte list \<Rightarrow> int \<times> byte list"

text \<open>
  The locals of \<open>make_certfp\<close> that are declared without a value and read before the
  file assigns them: the buffer \<open>digest\<close> and \<open>digest_size\<close>. What they hold on entry
  is whatever the stack holds.
\<close>

record uninitialised =
  u_digest :: "byte list"
  u_digest_size :: nat

text \<open>The \<open>switch(method)\<close>: the algorithm, \<open>len\<close> and \<open>spki\<close>; \<open>None\<close> is \<open>default\<close>.\<close>

definition certfp_method :: "int \<Rightarrow> (digest_algorithm \<times> nat \<times> bool) option" where
  "certfp_method method =
     (if method = RB_SSL_CERTFP_METH_CERT_SHA1 then
        Some (GNUTLS_DIG_SHA1, RB_SSL_CERTFP_LEN_SHA1, False)
      else if method = RB_SSL_CERTFP_METH_SPKI_SHA256 then
        Some (GNUTLS_DIG_SHA256, RB_SSL_CERTFP_LEN_SHA256, True)
      else if method = RB_SSL_CERTFP_METH_CERT_SHA256 then
        Some (GNUTLS_DIG_SHA256, RB_SSL_CERTFP_LEN_SHA256, False)
      else if method = RB_SSL_CERTFP_METH_SPKI_SHA512 then
        Some (GNUTLS_DIG_SHA512, RB_SSL_CERTFP_LEN_SHA512, True)
      else if method = RB_SSL_CERTFP_METH_CERT_SHA512 then
        Some (GNUTLS_DIG_SHA512, RB_SSL_CERTFP_LEN_SHA512, False)
      else None)"

text \<open>
  The SPKI branch up to \<open>if (der_pubkey)\<close>: the exported key with its length, or
  \<open>None\<close> for a null \<open>der_pubkey\<close>. The first export is offered no buffer and asks
  for the size; the second writes into \<open>rb_malloc(der_pubkey_len)\<close>, zeroed memory.
\<close>

definition export_der_pubkey :: "fp_engine \<Rightarrow> byte list \<Rightarrow> (byte list \<times> nat) option" where
  "export_der_pubkey eng cert =
     (if pubkey_init eng = GNUTLS_E_SUCCESS then
        (if pubkey_import_x509 eng cert = GNUTLS_E_SUCCESS then
           (let (r1, len1, w1) = pubkey_export eng cert 0 in
            if r1 = GNUTLS_E_SHORT_MEMORY_BUFFER then
              (let (r2, len2, w2) = pubkey_export eng cert len1 in
               if r2 \<noteq> GNUTLS_E_SUCCESS then None
               else Some (memcpy (replicate len1 0) w2 (min (length w2) len1), len2))
            else None)
         else None)
      else None)"

text \<open>
  \<open>make_certfp(cert, certfp, method)\<close>: the returned \<open>len\<close> and the caller's buffer
  \<open>certfp\<close> afterwards.
\<close>

definition make_certfp ::
  "fp_engine \<Rightarrow> uninitialised \<Rightarrow> byte list \<Rightarrow> byte list \<Rightarrow> int \<Rightarrow> int \<times> byte list" where
  "make_certfp eng u cert certfp method =
     (case certfp_method method of
        None \<Rightarrow> (0, certfp)
      | Some (algo, len0, spki) \<Rightarrow>
          (let (len, digest) =
             (if \<not> spki then
                (let (r, w) = crt_get_fingerprint eng cert algo (u_digest_size u);
                     dg = memcpy (u_digest u) w (length w)
                 in if r < 0 then (0, dg) else (len0, dg))
              else
                (case export_der_pubkey eng cert of
                   Some (der_pubkey, der_pubkey_len) \<Rightarrow>
                     (let (r, w) = hash_fast eng algo (take der_pubkey_len der_pubkey);
                          dg = memcpy (u_digest u) w (length w)
                      in if r \<noteq> 0 then (0, dg) else (len0, dg))
                 | None \<Rightarrow> (0, u_digest u)))
           in if len \<noteq> 0 then (int len, memcpy certfp digest len) else (int len, certfp)))"

text \<open>\<open>rb_get_ssl_certfp_file(filename, certfp, method)\<close>.\<close>

definition rb_get_ssl_certfp_file ::
  "fp_engine \<Rightarrow> (string \<Rightarrow> file_state) \<Rightarrow> uninitialised \<Rightarrow> string \<Rightarrow> byte list \<Rightarrow> int
     \<Rightarrow> int \<times> byte list" where
  "rb_get_ssl_certfp_file eng fs u filename certfp method =
     (case rb_load_file_into_datum_t fs filename of
        None \<Rightarrow> (- 1, certfp)
      | Some d_cert \<Rightarrow>
          if crt_init eng < 0 then (- 1, certfp)
          else
            (let (r, cert) = crt_import_pem eng d_cert in
             if r \<noteq> 0 then (- 1, certfp)
             else make_certfp eng u cert certfp method))"

subsection \<open>Example inputs\<close>

text \<open>A socket descriptor with nothing registered, and the same with a server session.\<close>

definition ex_fde :: fde where
  "ex_fde =
     \<lparr>fd = 7, fd_type = 4, ssl = None, accept = None, ssl_errno = 0, handshake_count = 0,
      read_handler = None, write_handler = None, timeout = None\<rparr>"

definition ex_ssl_fde :: fde where
  "ex_ssl_fde = ex_fde\<lparr>ssl := Some (server_session 7)\<rparr>"

text \<open>
  Answers of the engine: would-block wanting to read, interrupted wanting to write, a
  fatal alert (\<open>GNUTLS_E_FATAL_ALERT_RECEIVED\<close>), success, and 42 bytes transferred.
\<close>

definition ex_again :: engine_step where
  "ex_again = \<lparr>step_ret = - 28, step_ignore_errno = True, step_direction = 0\<rparr>"

definition ex_interrupted :: engine_step where
  "ex_interrupted = \<lparr>step_ret = - 52, step_ignore_errno = True, step_direction = 1\<rparr>"

definition ex_fatal :: engine_step where
  "ex_fatal = \<lparr>step_ret = - 12, step_ignore_errno = False, step_direction = 0\<rparr>"

definition ex_success :: engine_step where
  "ex_success = \<lparr>step_ret = 0, step_ignore_errno = False, step_direction = 0\<rparr>"

definition ex_bytes :: engine_step where
  "ex_bytes = \<lparr>step_ret = 42, step_ignore_errno = False, step_direction = 0\<rparr>"


text \<open>
  A listening descriptor as \<open>rb_ssl_listen\<close> and \<open>rb_accept_tcp\<close> leave it: an accept
  context with the application's callback and data, and no session (\<open>ssl\<close> is null).
  The second has a session of its own.
\<close>

definition ex_listener :: fde where
  "ex_listener =
     \<lparr>fd = 3, fd_type = 0x34,
      ssl = None, accept = Some (new_acceptdata\<lparr>ad_callback := 55, ad_data := 66\<rparr>),
      ssl_errno = 0, handshake_count = 0,
      read_handler = None, write_handler = None, timeout = None\<rparr>"

definition ex_listener_ssl :: fde where
  "ex_listener_ssl = ex_listener\<lparr>ssl := Some (server_session 3)\<rparr>"

text \<open>A peer address of 4 bytes.\<close>

definition ex_peer :: "byte list" where "ex_peer = [127, 0, 0, 1]"


text \<open>
  The statics before any setup: \<open>rb_init_ssl\<close> has allocated empty credentials, the
  other handles are null.
\<close>

definition ex_store :: cred_store where
  "ex_store =
     \<lparr>x509 = \<lparr>xc_key_mem = [], xc_dh = None\<rparr>, dh_params = Dh_null, default_priority = 0,
      x509_cert_count = 0, x509_cert = replicate MAX_CERTS [], x509_key = Key_null\<rparr>"

text \<open>
  A stand-in engine for setup: every byte of a certificate datum is one certificate,
  keys and DH parameters always import, and the only policy string that parses is
  \<open>NORMAL\<close> (handle 2); the built-in default policy has handle 1.
\<close>

definition ex_setup_engine :: setup_engine where
  "ex_setup_engine =
     \<lparr>x509_privkey_import = (\<lambda>d. 0),
      pem_certificates = (\<lambda>d. Some (map (\<lambda>b. [b]) d)),
      certificate_set_x509_key_mem = (\<lambda>c k. 0),
      dh_params_init = 0,
      dh_params_import_pkcs3 = (\<lambda>d. 0),
      priority_init =
        (\<lambda>p. case p of
               None \<Rightarrow> (0, 1, [])
             | Some str \<Rightarrow> if str = ''NORMAL'' then (0, 2, []) else (- 50, 0, str))\<rparr>"

text \<open>Files: a chain of three certificates, a chain of seven, and a key.\<close>

definition ex_fs :: "string \<Rightarrow> file_state" where
  "ex_fs path =
     (if path = ''cert.pem'' then File_bytes [1, 2, 3]
      else if path = ''chain7.pem'' then File_bytes [1, 2, 3, 4, 5, 6, 7]
      else if path = ''key.pem'' then File_bytes [9]
      else No_such_file)"


text \<open>
  A stand-in engine for fingerprints. A digest is its algorithm's length of one byte, the
  sum of the input; the public key of a certificate is its first two bytes. As the
  engine documents, \<open>gnutls_x509_crt_get_fingerprint\<close> and \<open>gnutls_pubkey_export\<close>
  fail with \<open>GNUTLS_E_SHORT_MEMORY_BUFFER\<close> when the size they are given is smaller
  than what they have to write.
\<close>

definition ex_digest_length :: "digest_algorithm \<Rightarrow> nat" where
  "ex_digest_length algo =
     (case algo of GNUTLS_DIG_SHA1 \<Rightarrow> 20 | GNUTLS_DIG_SHA256 \<Rightarrow> 32 | GNUTLS_DIG_SHA512 \<Rightarrow> 64)"

definition ex_digest :: "digest_algorithm \<Rightarrow> byte list \<Rightarrow> byte list" where
  "ex_digest algo bs = replicate (ex_digest_length algo) (sum_list bs)"

definition ex_fp_engine :: fp_engine where
  "ex_fp_engine =
     \<lparr>crt_get_fingerprint =
        (\<lambda>cert algo size.
           if size < ex_digest_length algo then (GNUTLS_E_SHORT_MEMORY_BUFFER, [])
           else (0, ex_digest algo cert)),
      pubkey_init = 0,
      pubkey_import_x509 = (\<lambda>cert. 0),
      pubkey_export =
        (\<lambda>cert size.
           if size < length (take 2 cert) then (GNUTLS_E_SHORT_MEMORY_BUFFER, length (take 2 cert), [])
           else (0, length (take 2 cert), take 2 cert)),
      hash_fast = (\<lambda>algo bs. (0, ex_digest algo bs)),
      crt_init = 0,
      crt_import_pem = (\<lambda>d. (0, d))\<rparr>"

text \<open>What the stack may hold in the uninitialised locals: zeroes, or a large size.\<close>

definition ex_stack_zero :: uninitialised where
  "ex_stack_zero = \<lparr>u_digest = replicate 128 0, u_digest_size = 0\<rparr>"

definition ex_stack_large :: uninitialised where
  "ex_stack_large = \<lparr>u_digest = replicate 128 0, u_digest_size = 4096\<rparr>"

text \<open>The caller's buffer of \<open>RB_SSL_CERTFP_LEN\<close> bytes, and a certificate.\<close>

definition ex_certfp :: "byte list" where "ex_certfp = replicate RB_SSL_CERTFP_LEN 0xEE"

definition ex_cert :: "byte list" where "ex_cert = [1, 2, 3]"

section \<open>Properties\<close>

subsection \<open>Registration and log helpers\<close>

lemma rb_setselect_read:
  "rb_setselect F tr RB_SELECT_READ h d =
     (F\<lparr>read_handler := map_option (\<lambda>x. (x, d)) h\<rparr>,
      tr @ [Setselect (fd F) RB_SELECT_READ h d])"
  by (simp add: rb_setselect_def RB_SELECT_READ_def RB_SELECT_WRITE_def)

lemma rb_setselect_write:
  "rb_setselect F tr RB_SELECT_WRITE h d =
     (F\<lparr>write_handler := map_option (\<lambda>x. (x, d)) h\<rparr>,
      tr @ [Setselect (fd F) RB_SELECT_WRITE h d])"
  by (simp add: rb_setselect_def RB_SELECT_READ_def RB_SELECT_WRITE_def)

lemma rb_setselect_both:
  "rb_setselect F tr (RB_SELECT_READ OR RB_SELECT_WRITE) h d =
     (F\<lparr>read_handler := map_option (\<lambda>x. (x, d)) h,
        write_handler := map_option (\<lambda>x. (x, d)) h\<rparr>,
      tr @ [Setselect (fd F) (RB_SELECT_READ OR RB_SELECT_WRITE) h d])"
  by (simp add: rb_setselect_def RB_SELECT_READ_def RB_SELECT_WRITE_def Let_def)

lemma callback_statuses_append:
  "callback_statuses (xs @ ys) = callback_statuses xs @ callback_statuses ys"
  by (induction xs rule: callback_statuses.induct) simp_all

lemma ex_ssl_fde_ssl: "ssl ex_ssl_fde = Some (server_session 7)"
  by (simp add: ex_ssl_fde_def)

lemma ex_ssl_fde_fd: "fd ex_ssl_fde = 7"
  by (simp add: ex_ssl_fde_def ex_fde_def)

lemma server_session_configure: "server_session d = configure_server d gnutls_init_server"
  by (simp add: server_session_def configure_server_def gnutls_init_server_def)

lemmas accept_flow_eval =
  accepted_session_def callbacks_of_def fde_of_def log_of_def
  rb_ssl_start_accepted_def rb_ssl_accept_setup_def rb_ssl_tryaccept_def rb_ssl_timeout_def
  do_ssl_handshake_def rb_settimeout_def rb_setselect_read rb_setselect_write rb_setselect_both
  server_session_def ex_fde_def ex_listener_def ex_listener_ssl_def ex_peer_def
  ex_again_def ex_success_def ex_fatal_def ex_interrupted_def
  GNUTLS_E_AGAIN_def GNUTLS_E_INTERRUPTED_def sockaddr_storage_size_def Let_def

subsection \<open>The handshake driver\<close>

text \<open>
  Claim C5. One call of \<open>do_ssl_handshake\<close> on a descriptor with a session:
  \<^item> when the engine answers \<open>GNUTLS_E_AGAIN\<close>, or \<open>GNUTLS_E_INTERRUPTED\<close> with an
    ignorable \<open>errno\<close>, the descriptor is registered with the supplied continuation and
    data for reading if the engine's record direction is 0 and for writing otherwise, the
    call returns 0, and the log gains the handshake step and the registration only, so
    no completion callback is invoked;
  \<^item> on any other negative answer the code is stored in \<open>ssl_errno\<close> and the call
    returns -1;
  \<^item> on a non-negative answer the call returns 1 and the descriptor is unchanged.
\<close>

theorem do_ssl_handshake_results:
  assumes "ssl F = Some s"
  shows "(step_ret e = GNUTLS_E_AGAIN
            \<or> (step_ret e = GNUTLS_E_INTERRUPTED \<and> step_ignore_errno e) \<longrightarrow>
            (\<exists>F' tr'. do_ssl_handshake e F tr cb data = Inr (0, F', tr')
               \<and> F' = (if step_direction e = 0 then F\<lparr>read_handler := Some (cb, data)\<rparr>
                       else F\<lparr>write_handler := Some (cb, data)\<rparr>)
               \<and> tr' = tr @ [Handshake (fd F),
                              Setselect (fd F)
                                (if step_direction e = 0 then RB_SELECT_READ else RB_SELECT_WRITE)
                                (Some cb) data]
               \<and> callback_statuses tr' = callback_statuses tr))
       \<and> (step_ret e < 0 \<and> step_ret e \<noteq> GNUTLS_E_AGAIN
            \<and> \<not> (step_ret e = GNUTLS_E_INTERRUPTED \<and> step_ignore_errno e) \<longrightarrow>
            do_ssl_handshake e F tr cb data =
              Inr (- 1, F\<lparr>ssl_errno := step_ret e\<rparr>, tr @ [Handshake (fd F)]))
       \<and> (0 \<le> step_ret e \<longrightarrow>
            do_ssl_handshake e F tr cb data = Inr (1, F, tr @ [Handshake (fd F)]))"
  using assms
  by (auto simp: do_ssl_handshake_def rb_setselect_read rb_setselect_write Let_def
      callback_statuses_append GNUTLS_E_AGAIN_def GNUTLS_E_INTERRUPTED_def)

theorem do_ssl_handshake_results_witness:
  "do_ssl_handshake ex_again ex_ssl_fde [] PF_rb_ssl_tryaccept 0 =
     Inr (0, ex_ssl_fde\<lparr>read_handler := Some (PF_rb_ssl_tryaccept, 0)\<rparr>,
          [Handshake 7, Setselect 7 RB_SELECT_READ (Some PF_rb_ssl_tryaccept) 0])
   \<and> do_ssl_handshake ex_interrupted ex_ssl_fde [] PF_rb_ssl_tryaccept 0 =
     Inr (0, ex_ssl_fde\<lparr>write_handler := Some (PF_rb_ssl_tryaccept, 0)\<rparr>,
          [Handshake 7, Setselect 7 RB_SELECT_WRITE (Some PF_rb_ssl_tryaccept) 0])
   \<and> do_ssl_handshake ex_fatal ex_ssl_fde [] PF_rb_ssl_tryaccept 0 =
     Inr (- 1, ex_ssl_fde\<lparr>ssl_errno := - 12\<rparr>, [Handshake 7])
   \<and> do_ssl_handshake ex_success ex_ssl_fde [] PF_rb_ssl_tryaccept 0 =
     Inr (1, ex_ssl_fde, [Handshake 7])"
  using do_ssl_handshake_results [OF ex_ssl_fde_ssl, of ex_again "[]" PF_rb_ssl_tryaccept 0]
    do_ssl_handshake_results [OF ex_ssl_fde_ssl, of ex_interrupted "[]" PF_rb_ssl_tryaccept 0]
    do_ssl_handshake_results [OF ex_ssl_fde_ssl, of ex_fatal "[]" PF_rb_ssl_tryaccept 0]
    do_ssl_handshake_results [OF ex_ssl_fde_ssl, of ex_success "[]" PF_rb_ssl_tryaccept 0]
  by (simp add: ex_ssl_fde_fd ex_again_def ex_interrupted_def ex_fatal_def ex_success_def
      GNUTLS_E_AGAIN_def GNUTLS_E_INTERRUPTED_def)

subsection \<open>The read/write shim\<close>

text \<open>
  Claim C6. \<open>rb_ssl_read\<close> classifies the engine's answer to the record read, and
  \<open>rb_ssl_write\<close> its answer to the record write, in the same way:
  \<^item> \<open>GNUTLS_E_AGAIN\<close> or \<open>GNUTLS_E_INTERRUPTED\<close> under an ignorable \<open>errno\<close> gives
    \<open>RB_RW_SSL_NEED_READ\<close> when the engine's record direction is 0 and
    \<open>RB_RW_SSL_NEED_WRITE\<close> otherwise, whichever transfer was asked for;
  \<^item> every other negative answer gives \<open>RB_RW_IO_ERROR\<close>, with the engine's code stored
    in \<open>ssl_errno\<close>;
  \<^item> a non-negative answer is returned unchanged.
\<close>

theorem rb_ssl_read_write_results:
  assumes "ssl F = Some s"
    and "(call = rb_ssl_read \<and> e = e_recv) \<or> (call = rb_ssl_write \<and> e = e_send)"
  shows "((step_ret e = GNUTLS_E_AGAIN \<or> step_ret e = GNUTLS_E_INTERRUPTED)
            \<and> step_ignore_errno e \<longrightarrow>
            call e_recv e_send F =
              Inr (if step_direction e = 0 then RB_RW_SSL_NEED_READ else RB_RW_SSL_NEED_WRITE,
                   F, None))
       \<and> (step_ret e < 0
            \<and> \<not> ((step_ret e = GNUTLS_E_AGAIN \<or> step_ret e = GNUTLS_E_INTERRUPTED)
                   \<and> step_ignore_errno e) \<longrightarrow>
            call e_recv e_send F = Inr (RB_RW_IO_ERROR, F\<lparr>ssl_errno := step_ret e\<rparr>, Some EIO))
       \<and> (0 \<le> step_ret e \<longrightarrow> call e_recv e_send F = Inr (step_ret e, F, None))"
  using assms
  by (auto simp: rb_ssl_read_or_write_def rb_ssl_read_def rb_ssl_write_def Let_def
      GNUTLS_E_AGAIN_def GNUTLS_E_INTERRUPTED_def)

theorem rb_ssl_read_write_results_witness:
  "rb_ssl_read ex_interrupted ex_bytes ex_ssl_fde = Inr (RB_RW_SSL_NEED_WRITE, ex_ssl_fde, None)
   \<and> rb_ssl_write ex_bytes ex_again ex_ssl_fde = Inr (RB_RW_SSL_NEED_READ, ex_ssl_fde, None)
   \<and> rb_ssl_read ex_fatal ex_bytes ex_ssl_fde =
       Inr (RB_RW_IO_ERROR, ex_ssl_fde\<lparr>ssl_errno := - 12\<rparr>, Some EIO)
   \<and> rb_ssl_write ex_fatal ex_bytes ex_ssl_fde = Inr (42, ex_ssl_fde, None)"
  using rb_ssl_read_write_results
      [OF ex_ssl_fde_ssl, of rb_ssl_read ex_interrupted ex_interrupted ex_bytes]
    rb_ssl_read_write_results
      [OF ex_ssl_fde_ssl, of rb_ssl_write ex_again ex_bytes ex_again]
    rb_ssl_read_write_results
      [OF ex_ssl_fde_ssl, of rb_ssl_read ex_fatal ex_fatal ex_bytes]
    rb_ssl_read_write_results
      [OF ex_ssl_fde_ssl, of rb_ssl_write ex_bytes ex_fatal ex_bytes]
  by (simp add: ex_again_def ex_interrupted_def ex_fatal_def ex_bytes_def
      GNUTLS_E_AGAIN_def GNUTLS_E_INTERRUPTED_def)

subsection \<open>The accept flow\<close>

text \<open>
  Claim C1 says that the completion callback of a server-side session is invoked exactly
  once, whatever the would-block answers, readiness events and timer expiry. In the run
  below the first handshake step would block, the timer expires, and then the descriptor
  becomes readable and the handshake completes: \<open>rb_ssl_timeout\<close> invokes the callback
  with \<open>RB_ERR_TIMEOUT\<close> and \<open>rb_ssl_tryaccept\<close> invokes it again with \<open>RB_OK\<close>.
\<close>

theorem accepted_session_timeout_then_ready:
  "callbacks_of (accepted_session 1 ex_again ex_fde 100 200 30
                   [Timer_expired ex_again, Readable ex_success])
     = Inr [RB_ERR_TIMEOUT, RB_OK]"
  by (simp add: accept_flow_eval)

text \<open>
  Claim C2 says that the timer continuation clears the accept context before it invokes
  the callback, so that a late readiness event finds no context and invokes nothing. After
  \<open>rb_ssl_timeout\<close> has run, the descriptor still holds its accept context and the
  readiness registration of \<open>rb_ssl_tryaccept\<close>; a late readiness event on which the
  handshake fails runs the whole teardown and a second callback, with \<open>RB_ERROR_SSL\<close>.
\<close>

theorem rb_ssl_timeout_keeps_accept_context:
  "map_option (\<lambda>F. (accept F \<noteq> None, read_handler F, timeout F))
     (fde_of (accepted_session 1 ex_again ex_fde 100 200 30 [Timer_expired ex_again]))
     = Some (True, Some (PF_rb_ssl_tryaccept, 0), None)
   \<and> log_of (accepted_session 1 ex_again ex_fde 100 200 30
               [Timer_expired ex_again, Readable ex_fatal])
     = Inr [K_settimeout 7 30 True, K_priority_set 7, K_handshake 7,
            K_setselect 7 RB_SELECT_READ True,
            K_callback 7 RB_ERR_TIMEOUT,
            K_handshake 7, K_settimeout 7 0 False,
            K_setselect 7 (RB_SELECT_READ OR RB_SELECT_WRITE) False,
            K_callback 7 RB_ERROR_SSL, K_free]"
  by (simp add: accept_flow_eval)

text \<open>
  Claim C3 says that \<open>rb_ssl_accept_setup\<close> configures the cipher priority of, drives the
  handshake of, and consumes the accept context of the accepted descriptor \<open>new_F\<close>, not
  the listening descriptor \<open>F\<close>. In the code every use of a session after \<open>gnutls_init\<close>
  is of the listener's. With a listener that has no session (\<open>ssl\<close> is null, as
  \<open>rb_ssl_listen\<close> leaves it) the call dereferences the null pointer. With a listener
  that has one, that session receives the credentials, the DH bits, the transport
  pointer of the accepted socket (7), the certificate request and the priority cache,
  while the session of \<open>new_F\<close> stays as \<open>gnutls_init\<close> left it; the handshake step
  and the callback are on the listener (descriptor 3), the listener's accept context is
  the one consumed, and the new descriptor keeps its context, with the peer address, and
  its timer.
\<close>

theorem rb_ssl_accept_setup_uses_listener:
  "rb_ssl_accept_setup 1 ex_success ex_listener ex_fde [] ex_peer 4 = Inl Null_deref
   \<and> map_sum id
       (\<lambda>(F, N, tr).
          (accept F, ssl F, ssl N,
           map_option (\<lambda>a. (take 4 (ad_S a), ad_addrlen a)) (accept N), timeout N,
           map kind_of tr))
       (rb_ssl_accept_setup 1 ex_success ex_listener_ssl ex_fde [] ex_peer 4)
     = Inr (None,
            Some \<lparr>gs_server = True, gs_credentials_set = True, gs_dh_prime_bits = 1024,
                  gs_transport_ptr = 7, gs_cert_request = True,
                  gs_priority = Priority_cache 1\<rparr>,
            Some gnutls_init_server,
            Some ([127, 0, 0, 1], 4), Some (10, PF_rb_ssl_timeout, 0),
            [K_settimeout 7 10 True, K_priority_set 3, K_handshake 3,
             K_callback 3 RB_OK, K_free])"
  by (simp add: accept_flow_eval memcpy_def configure_server_def)

text \<open>
  Claim C4 says that on completion, on the first synchronous step as well as in a later
  readiness callback, the timer is cancelled and the readiness registration cleared
  before the callback is invoked with \<open>RB_OK\<close>. When the first step of
  \<open>rb_ssl_start_accepted\<close> completes, the log holds no cancellation between the
  handshake step and the callback, the timer stays armed with \<open>rb_ssl_timeout\<close>, and
  its expiry runs \<open>rb_ssl_timeout\<close> on a descriptor whose accept context is null, which
  its own assertion excludes.
\<close>

theorem rb_ssl_start_accepted_keeps_timer:
  "log_of (accepted_session 1 ex_success ex_fde 100 200 30 [])
     = Inr [K_settimeout 7 30 True, K_priority_set 7, K_handshake 7,
            K_callback 7 RB_OK, K_free]
   \<and> map_option (\<lambda>F. (accept F, timeout F))
       (fde_of (accepted_session 1 ex_success ex_fde 100 200 30 []))
     = Some (None, Some (30, PF_rb_ssl_timeout, 0))
   \<and> accepted_session 1 ex_success ex_fde 100 200 30 [Timer_expired ex_again]
     = Inl Assert_failed"
  by (simp add: accept_flow_eval)

text \<open>
  The same branch of \<open>rb_ssl_start_accepted\<close> tests the result of \<open>do_ssl_handshake\<close>
  for being non-zero, which -1 is: a first step that fails fatally records the engine's
  code in \<open>ssl_errno\<close> and still invokes the callback with \<open>RB_OK\<close>.
\<close>

lemma rb_ssl_start_accepted_failure_as_ok:
  "log_of (accepted_session 1 ex_fatal ex_fde 100 200 30 [])
     = Inr [K_settimeout 7 30 True, K_priority_set 7, K_handshake 7,
            K_callback 7 RB_OK, K_free]
   \<and> map_option ssl_errno (fde_of (accepted_session 1 ex_fatal ex_fde 100 200 30 []))
     = Some (- 12)"
  by (simp add: accept_flow_eval)

subsection \<open>What the accept flow does keep\<close>

text \<open>
  When a handshake step in \<open>rb_ssl_tryaccept\<close> ends the handshake, by success or by
  failure, the context is taken off the descriptor, the timer cancelled and the readiness
  registration cleared before the one callback, and the context is freed after it.
\<close>

lemma rb_ssl_tryaccept_teardown:
  assumes "ssl F = Some s" and "accept F = Some ad"
    and "step_ret e \<noteq> GNUTLS_E_AGAIN"
    and "\<not> (step_ret e = GNUTLS_E_INTERRUPTED \<and> step_ignore_errno e)"
  shows "rb_ssl_tryaccept e F tr =
           Inr ((if step_ret e < 0 then F\<lparr>ssl_errno := step_ret e\<rparr> else F)
                  \<lparr>accept := None, timeout := None, read_handler := None, write_handler := None\<rparr>,
                tr @ [Handshake (fd F),
                      Settimeout (fd F) 0 None 0,
                      Setselect (fd F) (RB_SELECT_READ OR RB_SELECT_WRITE) None 0,
                      (if 0 \<le> step_ret e
                       then Callback (ad_callback ad) (fd F) RB_OK
                              (Some (ad_S ad)) (ad_addrlen ad) (ad_data ad)
                       else Callback (ad_callback ad) (fd F) RB_ERROR_SSL None 0 (ad_data ad)),
                      Free_acceptdata ad])"
  using assms
  by (auto simp: rb_ssl_tryaccept_def do_ssl_handshake_def rb_settimeout_def rb_setselect_both
      Let_def)

lemma rb_ssl_timeout_statuses:
  "rb_ssl_timeout F tr = Inr (F', tr') \<Longrightarrow>
   callback_statuses tr' = callback_statuses tr @ [RB_ERR_TIMEOUT]"
  by (auto simp: rb_ssl_timeout_def callback_statuses_append split: option.splits)

lemma do_ssl_handshake_statuses:
  "do_ssl_handshake e F tr cb d = Inr (r, F', tr') \<Longrightarrow>
   callback_statuses tr' = callback_statuses tr \<and> fd F' = fd F \<and> accept F' = accept F
     \<and> ssl F' = ssl F \<and> timeout F' = timeout F"
  by (auto simp: do_ssl_handshake_def rb_setselect_read rb_setselect_write Let_def
      callback_statuses_append split: option.splits if_splits)

lemma rb_ssl_tryaccept_statuses:
  "rb_ssl_tryaccept e F tr = Inr (F', tr') \<Longrightarrow>
   \<exists>ss. callback_statuses tr' = callback_statuses tr @ ss \<and> set ss \<subseteq> {RB_OK, RB_ERROR_SSL}"
  by (auto simp: rb_ssl_tryaccept_def rb_settimeout_def rb_setselect_both Let_def
      callback_statuses_append
      split: option.splits sum.splits if_splits dest!: do_ssl_handshake_statuses)

lemma run_PF_statuses:
  "run_PF h e F tr = Inr (F', tr') \<Longrightarrow>
   \<exists>ss. callback_statuses tr' = callback_statuses tr @ ss
     \<and> set ss \<subseteq> {RB_OK, RB_ERROR_SSL, RB_ERR_TIMEOUT}"
proof (cases h)
  case PF_rb_ssl_tryaccept
  assume "run_PF h e F tr = Inr (F', tr')"
  with PF_rb_ssl_tryaccept have "rb_ssl_tryaccept e F tr = Inr (F', tr')" by simp
  from rb_ssl_tryaccept_statuses [OF this] show ?thesis by blast
next
  case PF_rb_ssl_timeout
  assume "run_PF h e F tr = Inr (F', tr')"
  with PF_rb_ssl_timeout have "rb_ssl_timeout F tr = Inr (F', tr')" by simp
  from rb_ssl_timeout_statuses [OF this] show ?thesis by simp
qed

lemma deliver_statuses:
  "deliver ev F tr = Inr (F', tr') \<Longrightarrow>
   \<exists>ss. callback_statuses tr' = callback_statuses tr @ ss
     \<and> set ss \<subseteq> {RB_OK, RB_ERROR_SSL, RB_ERR_TIMEOUT}"
  by (cases ev) (auto split: option.splits dest: run_PF_statuses)

lemma run_statuses:
  "run evs F tr = Inr (F', tr') \<Longrightarrow>
   \<exists>ss. callback_statuses tr' = callback_statuses tr @ ss
     \<and> set ss \<subseteq> {RB_OK, RB_ERROR_SSL, RB_ERR_TIMEOUT}"
proof (induction evs arbitrary: F tr)
  case Nil
  then show ?case by simp
next
  case (Cons ev evs)
  from Cons.prems obtain F1 tr1 where d: "deliver ev F tr = Inr (F1, tr1)"
    and r: "run evs F1 tr1 = Inr (F', tr')"
    by (auto split: sum.splits)
  from deliver_statuses [OF d] obtain s1 where
    s1: "callback_statuses tr1 = callback_statuses tr @ s1"
      "set s1 \<subseteq> {RB_OK, RB_ERROR_SSL, RB_ERR_TIMEOUT}" by blast
  from Cons.IH [OF r] obtain s2 where
    s2: "callback_statuses tr' = callback_statuses tr1 @ s2"
      "set s2 \<subseteq> {RB_OK, RB_ERROR_SSL, RB_ERR_TIMEOUT}" by blast
  from s1 s2 have "callback_statuses tr' = callback_statuses tr @ (s1 @ s2)"
    "set (s1 @ s2) \<subseteq> {RB_OK, RB_ERROR_SSL, RB_ERR_TIMEOUT}" by auto
  then show ?case by blast
qed

lemma rb_ssl_start_accepted_statuses:
  "rb_ssl_start_accepted dp e F tr cb d t = Inr (F', tr') \<Longrightarrow>
   \<exists>ss. callback_statuses tr' = callback_statuses tr @ ss \<and> set ss \<subseteq> {RB_OK}"
  by (auto simp: rb_ssl_start_accepted_def rb_settimeout_def Let_def callback_statuses_append
      split: option.splits sum.splits if_splits prod.splits dest!: do_ssl_handshake_statuses)

text \<open>
  Whatever the events, a completion callback of a session started by
  \<open>rb_ssl_start_accepted\<close> gets one of the three statuses.
\<close>

lemma accepted_session_statuses:
  assumes "callbacks_of (accepted_session dp e new_F cb data tmo evs) = Inr sts"
  shows "set sts \<subseteq> {RB_OK, RB_ERROR_SSL, RB_ERR_TIMEOUT}"
proof -
  from assms obtain F tr F' tr' where
    a: "rb_ssl_start_accepted dp e new_F [] cb data tmo = Inr (F, tr)"
    and r: "run evs F tr = Inr (F', tr')" and s: "sts = callback_statuses tr'"
    by (auto simp: callbacks_of_def accepted_session_def split: sum.splits)
  from rb_ssl_start_accepted_statuses [OF a] run_statuses [OF r] s show ?thesis
    by auto
qed

lemma rb_ssl_tryaccept_handshaking:
  assumes "handshaking F"
  shows "\<exists>F' tr'. rb_ssl_tryaccept e F tr = Inr (F', tr')
           \<and> ((handshaking F' \<and> callback_statuses tr' = callback_statuses tr)
              \<or> (unregistered F'
                  \<and> length (callback_statuses tr') = Suc (length (callback_statuses tr))))"
  using assms
  by (auto simp: handshaking_def unregistered_def rb_ssl_tryaccept_def do_ssl_handshake_def
      rb_settimeout_def rb_setselect_read rb_setselect_write rb_setselect_both Let_def
      callback_statuses_append)

lemma deliver_handshaking:
  assumes "handshaking F" and "\<not> is_timer ev"
  shows "\<exists>F' tr'. deliver ev F tr = Inr (F', tr')
           \<and> ((handshaking F' \<and> callback_statuses tr' = callback_statuses tr)
              \<or> (unregistered F'
                  \<and> length (callback_statuses tr') = Suc (length (callback_statuses tr))))"
proof (cases ev)
  case (Readable e)
  show ?thesis
  proof (cases "read_handler F")
    case None
    with Readable assms show ?thesis by simp
  next
    case (Some hd)
    with assms have hd: "hd = (PF_rb_ssl_tryaccept, 0)" by (simp add: handshaking_def)
    from assms have "handshaking (F\<lparr>read_handler := None\<rparr>)" by (simp add: handshaking_def)
    from rb_ssl_tryaccept_handshaking [OF this, of e tr] Readable Some hd show ?thesis by simp
  qed
next
  case (Writable e)
  show ?thesis
  proof (cases "write_handler F")
    case None
    with Writable assms show ?thesis by simp
  next
    case (Some hd)
    with assms have hd: "hd = (PF_rb_ssl_tryaccept, 0)" by (simp add: handshaking_def)
    from assms have "handshaking (F\<lparr>write_handler := None\<rparr>)" by (simp add: handshaking_def)
    from rb_ssl_tryaccept_handshaking [OF this, of e tr] Writable Some hd show ?thesis by simp
  qed
next
  case (Timer_expired e)
  with assms show ?thesis by simp
qed

lemma deliver_unregistered:
  "unregistered F \<Longrightarrow> \<not> is_timer ev \<Longrightarrow> deliver ev F tr = Inr (F, tr)"
  by (cases ev) (simp_all add: unregistered_def)

lemma run_unregistered:
  "unregistered F \<Longrightarrow> \<forall>ev \<in> set evs. \<not> is_timer ev \<Longrightarrow> run evs F tr = Inr (F, tr)"
  by (induction evs) (simp_all add: deliver_unregistered)

lemma run_handshaking:
  assumes "handshaking F" and "\<forall>ev \<in> set evs. \<not> is_timer ev"
  shows "\<exists>F' tr'. run evs F tr = Inr (F', tr')
           \<and> length (callback_statuses tr') \<le> Suc (length (callback_statuses tr))"
  using assms
proof (induction evs arbitrary: F tr)
  case Nil
  then show ?case by simp
next
  case (Cons ev evs)
  then have nt: "\<not> is_timer ev" and rest: "\<forall>ev \<in> set evs. \<not> is_timer ev" by simp_all
  from deliver_handshaking [OF Cons.prems(1) nt, of tr] obtain F1 tr1 where
    d: "deliver ev F tr = Inr (F1, tr1)"
    and alt: "(handshaking F1 \<and> callback_statuses tr1 = callback_statuses tr)
              \<or> (unregistered F1
                  \<and> length (callback_statuses tr1) = Suc (length (callback_statuses tr)))"
    by blast
  from alt show ?case
  proof
    assume h: "handshaking F1 \<and> callback_statuses tr1 = callback_statuses tr"
    with Cons.IH [OF _ rest, of F1 tr1] d show ?thesis by auto
  next
    assume u: "unregistered F1
                  \<and> length (callback_statuses tr1) = Suc (length (callback_statuses tr))"
    with run_unregistered [OF _ rest, of F1 tr1] d show ?thesis by auto
  qed
qed

lemma rb_ssl_start_accepted_state:
  assumes "unregistered new_F"
  shows "\<exists>F tr. rb_ssl_start_accepted dp e new_F [] cb data tmo = Inr (F, tr)
           \<and> ((handshaking F \<and> callback_statuses tr = [])
              \<or> (unregistered F \<and> callback_statuses tr = [RB_OK]))"
  using assms
  by (auto simp: handshaking_def unregistered_def rb_ssl_start_accepted_def do_ssl_handshake_def
      rb_settimeout_def rb_setselect_read rb_setselect_write Let_def)

text \<open>
  If the timer never expires, a session started on a descriptor with no readiness
  registration returns from every event and invokes the callback at most once.
\<close>

lemma accepted_session_without_timer:
  assumes "unregistered new_F" and "\<forall>ev \<in> set evs. \<not> is_timer ev"
  shows "\<exists>sts. callbacks_of (accepted_session dp e new_F cb data tmo evs) = Inr sts
           \<and> length sts \<le> 1"
proof -
  from rb_ssl_start_accepted_state [OF assms(1), of dp e cb data tmo] obtain F tr where
    a: "rb_ssl_start_accepted dp e new_F [] cb data tmo = Inr (F, tr)"
    and alt: "(handshaking F \<and> callback_statuses tr = [])
              \<or> (unregistered F \<and> callback_statuses tr = [RB_OK])"
    by blast
  from alt show ?thesis
  proof
    assume "handshaking F \<and> callback_statuses tr = []"
    with run_handshaking [OF _ assms(2), of F tr] a show ?thesis
      by (auto simp: callbacks_of_def accepted_session_def)
  next
    assume "unregistered F \<and> callback_statuses tr = [RB_OK]"
    with run_unregistered [OF _ assms(2), of F tr] a show ?thesis
      by (auto simp: callbacks_of_def accepted_session_def)
  qed
qed

subsection \<open>Setup of the credential store\<close>

lemma load_ex:
  "rb_load_file_into_datum_t ex_fs ''cert.pem'' = Some [1, 2, 3]"
  "rb_load_file_into_datum_t ex_fs ''chain7.pem'' = Some [1, 2, 3, 4, 5, 6, 7]"
  "rb_load_file_into_datum_t ex_fs ''key.pem'' = Some [9]"
  "rb_load_file_into_datum_t ex_fs ''missing.pem'' = None"
  by (simp_all add: rb_load_file_into_datum_t_def ex_fs_def)

lemma ex_setup_engine_simps:
  "x509_privkey_import ex_setup_engine d = 0"
  "pem_certificates ex_setup_engine d = Some (map (\<lambda>b. [b]) d)"
  "certificate_set_x509_key_mem ex_setup_engine c k = 0"
  "priority_init ex_setup_engine None = (0, 1, [])"
  "priority_init ex_setup_engine (Some ''BOGUS'') = (- 50, 0, ''BOGUS'')"
  by (simp_all add: ex_setup_engine_def)

text \<open>
  Claim C7, as the code has it. When the certificate file holds more than \<open>MAX_CERTS\<close>
  (6) certificates, with a certificate file and a key file that load and a key that
  imports, \<open>rb_setup_ssl_server\<close> returns 0 and logs the import error; the credentials
  \<open>x509\<close>, the DH parameters and the default priority are as before. The identity key
  \<open>x509_key\<close> is not: it is initialised and imported from the key file before the
  chain is parsed, and no failure path puts the old one back.
\<close>

theorem rb_setup_ssl_server_chain_too_long:
  assumes "rb_load_file_into_datum_t fs cert_path = Some d_cert"
    and "rb_load_file_into_datum_t fs key_path = Some d_key"
    and "x509_privkey_import eng d_key = GNUTLS_E_SUCCESS"
    and "pem_certificates eng d_cert = Some cs"
    and "MAX_CERTS < length cs"
  shows "\<exists>st' lg.
           rb_setup_ssl_server eng fs st (Some cert_path) (Some key_path) dhfile cipher_list
             = Inr (0, st', lg)
           \<and> x509 st' = x509 st \<and> dh_params st' = dh_params st
           \<and> default_priority st' = default_priority st
           \<and> x509_key st' = Key_of d_key
           \<and> lg = [Log_error_importing_certificate GNUTLS_E_SHORT_MEMORY_BUFFER]"
  using assms
  by (simp add: rb_setup_ssl_server_def gnutls_x509_crt_list_import_def Let_def
      GNUTLS_E_SHORT_MEMORY_BUFFER_def)

theorem rb_setup_ssl_server_chain_too_long_witness:
  "MAX_CERTS < length [1, 2, 3, 4, 5, 6, 7 :: byte]
   \<and> setup_return (rb_setup_ssl_server ex_setup_engine ex_fs ex_store
                     (Some ''chain7.pem'') (Some ''key.pem'') None None) = Some 0
   \<and> map_option (\<lambda>st. (x509 st, dh_params st, default_priority st, x509_key st))
       (setup_store (rb_setup_ssl_server ex_setup_engine ex_fs ex_store
                       (Some ''chain7.pem'') (Some ''key.pem'') None None))
     = Some (x509 ex_store, Dh_null, 0, Key_of [9])"
proof -
  have n: "MAX_CERTS < length (map (\<lambda>b. [b]) [1, 2, 3, 4, 5, 6, 7 :: byte])"
    by (simp add: MAX_CERTS_def)
  show ?thesis
    using rb_setup_ssl_server_chain_too_long
      [of ex_fs "''chain7.pem''" "[1, 2, 3, 4, 5, 6, 7]" "''key.pem''" "[9]" ex_setup_engine
        "map (\<lambda>b. [b]) [1, 2, 3, 4, 5, 6, 7]" ex_store None None,
        OF load_ex(2) load_ex(3) _ _ n]
    by (auto simp: ex_setup_engine_simps GNUTLS_E_SUCCESS_def setup_return_def setup_store_def
        ex_store_def MAX_CERTS_def)
qed

text \<open>
  Claim C7 as stated fails: setup on the statics before any setup, with a chain of seven
  certificates, returns 0 and leaves statics that differ from the ones it started with,
  the key of the key file being installed in \<open>x509_key\<close>.
\<close>

theorem rb_setup_ssl_server_modifies_store:
  "setup_return (rb_setup_ssl_server ex_setup_engine ex_fs ex_store
                   (Some ''chain7.pem'') (Some ''key.pem'') None None) = Some 0
   \<and> map_option x509_key
       (setup_store (rb_setup_ssl_server ex_setup_engine ex_fs ex_store
                       (Some ''chain7.pem'') (Some ''key.pem'') None None)) = Some (Key_of [9])
   \<and> x509_key ex_store = Key_null
   \<and> setup_store (rb_setup_ssl_server ex_setup_engine ex_fs ex_store
                     (Some ''chain7.pem'') (Some ''key.pem'') None None) \<noteq> Some ex_store"
  by (auto simp: rb_setup_ssl_server_def load_ex ex_setup_engine_simps GNUTLS_E_SUCCESS_def
      gnutls_x509_crt_list_import_def MAX_CERTS_def setup_return_def setup_store_def
      ex_store_def GNUTLS_E_SHORT_MEMORY_BUFFER_def Let_def)

text \<open>
  Claim C8. With a certificate file and a key file that load, a key that imports, a chain
  within capacity and a certificate and key the engine accepts, a cipher policy string
  that the engine fails to parse makes \<open>rb_setup_ssl_server\<close> log the syntax error
  (with the engine's error position), leave in \<open>default_priority\<close> the handle that
  \<open>gnutls_priority_init\<close> writes for the built-in default policy (\<open>NULL\<close>), and return 1,
  whatever the DH file.
\<close>

theorem rb_setup_ssl_server_policy_fallback:
  assumes "rb_load_file_into_datum_t fs cert_path = Some d_cert"
    and "rb_load_file_into_datum_t fs key_path = Some d_key"
    and "x509_privkey_import eng d_key = GNUTLS_E_SUCCESS"
    and "pem_certificates eng d_cert = Some cs"
    and "length cs \<le> MAX_CERTS"
    and "certificate_set_x509_key_mem eng d_cert d_key = GNUTLS_E_SUCCESS"
    and "priority_init eng cipher_list = (ret, h, err)"
    and "ret < 0"
    and "priority_init eng None = (ret0, h0, err0)"
  shows "\<exists>st' lg.
           rb_setup_ssl_server eng fs st (Some cert_path) (Some key_path) dhfile cipher_list
             = Inr (1, st', lg)
           \<and> default_priority st' = h0
           \<and> last lg = Log_cipher_list_syntax_error err"
  using assms
  by (simp add: rb_setup_ssl_server_def gnutls_x509_crt_list_import_def Let_def
      setup_priority_def split: prod.splits)

theorem rb_setup_ssl_server_policy_fallback_witness:
  "length (map (\<lambda>b. [b]) [1, 2, 3 :: byte]) \<le> MAX_CERTS
   \<and> setup_return (rb_setup_ssl_server ex_setup_engine ex_fs ex_store
                     (Some ''cert.pem'') (Some ''key.pem'') None (Some ''BOGUS'')) = Some 1
   \<and> map_option default_priority
       (setup_store (rb_setup_ssl_server ex_setup_engine ex_fs ex_store
                       (Some ''cert.pem'') (Some ''key.pem'') None (Some ''BOGUS''))) = Some 1
   \<and> map_option last
       (setup_log (rb_setup_ssl_server ex_setup_engine ex_fs ex_store
                     (Some ''cert.pem'') (Some ''key.pem'') None (Some ''BOGUS'')))
     = Some (Log_cipher_list_syntax_error ''BOGUS'')"
proof -
  have n: "length (map (\<lambda>b. [b]) [1, 2, 3 :: byte]) \<le> MAX_CERTS"
    by (simp add: MAX_CERTS_def)
  show ?thesis
    using n rb_setup_ssl_server_policy_fallback
      [of ex_fs "''cert.pem''" "[1, 2, 3]" "''key.pem''" "[9]" ex_setup_engine
        "map (\<lambda>b. [b]) [1, 2, 3]" "Some ''BOGUS''" "- 50" 0 "''BOGUS''" 0 1 "[]" ex_store None,
        OF load_ex(1) load_ex(3) _ _ n]
    by (auto simp: ex_setup_engine_simps GNUTLS_E_SUCCESS_def setup_return_def setup_store_def
        setup_log_def)
qed

subsection \<open>Certificate fingerprints\<close>

lemma certfp_method_values:
  "certfp_method RB_SSL_CERTFP_METH_CERT_SHA1
     = Some (GNUTLS_DIG_SHA1, RB_SSL_CERTFP_LEN_SHA1, False)"
  "certfp_method RB_SSL_CERTFP_METH_CERT_SHA256
     = Some (GNUTLS_DIG_SHA256, RB_SSL_CERTFP_LEN_SHA256, False)"
  "certfp_method RB_SSL_CERTFP_METH_CERT_SHA512
     = Some (GNUTLS_DIG_SHA512, RB_SSL_CERTFP_LEN_SHA512, False)"
  "certfp_method RB_SSL_CERTFP_METH_SPKI_SHA256
     = Some (GNUTLS_DIG_SHA256, RB_SSL_CERTFP_LEN_SHA256, True)"
  "certfp_method RB_SSL_CERTFP_METH_SPKI_SHA512
     = Some (GNUTLS_DIG_SHA512, RB_SSL_CERTFP_LEN_SHA512, True)"
  "certfp_method 77 = None"
  by (simp_all add: certfp_method_def RB_SSL_CERTFP_METH_CERT_SHA1_def
      RB_SSL_CERTFP_METH_CERT_SHA256_def RB_SSL_CERTFP_METH_CERT_SHA512_def
      RB_SSL_CERTFP_METH_SPKI_SHA256_def RB_SSL_CERTFP_METH_SPKI_SHA512_def)

lemma export_der_pubkey_failure:
  "pubkey_init eng \<noteq> GNUTLS_E_SUCCESS
   \<or> pubkey_import_x509 eng cert \<noteq> GNUTLS_E_SUCCESS
   \<or> fst (pubkey_export eng cert 0) \<noteq> GNUTLS_E_SHORT_MEMORY_BUFFER
   \<or> fst (pubkey_export eng cert (fst (snd (pubkey_export eng cert 0)))) \<noteq> GNUTLS_E_SUCCESS
   \<Longrightarrow> export_der_pubkey eng cert = None"
  by (auto simp: export_der_pubkey_def split: prod.splits)

lemma make_certfp_unknown_method:
  "certfp_method method = None \<Longrightarrow> make_certfp eng u cert certfp method = (0, certfp)"
  by (simp add: make_certfp_def)

lemma make_certfp_fingerprint_failure:
  "certfp_method method = Some (algo, len, False) \<Longrightarrow>
   fst (crt_get_fingerprint eng cert algo (u_digest_size u)) < 0 \<Longrightarrow>
   make_certfp eng u cert certfp method = (0, certfp)"
  by (auto simp: make_certfp_def Let_def split: prod.splits)

lemma make_certfp_export_failure:
  "certfp_method method = Some (algo, len, True) \<Longrightarrow> export_der_pubkey eng cert = None \<Longrightarrow>
   make_certfp eng u cert certfp method = (0, certfp)"
  by (simp add: make_certfp_def)

lemma make_certfp_hash_failure:
  "certfp_method method = Some (algo, len, True) \<Longrightarrow>
   export_der_pubkey eng cert = Some (der, n) \<Longrightarrow>
   fst (hash_fast eng algo (take n der)) \<noteq> 0 \<Longrightarrow>
   make_certfp eng u cert certfp method = (0, certfp)"
  by (auto simp: make_certfp_def Let_def split: prod.splits)

lemma certfp_file_failures:
  "rb_load_file_into_datum_t fs filename = None \<Longrightarrow>
     rb_get_ssl_certfp_file eng fs u filename certfp method = (- 1, certfp)"
  "rb_load_file_into_datum_t fs filename = Some d \<Longrightarrow> crt_init eng < 0 \<Longrightarrow>
     rb_get_ssl_certfp_file eng fs u filename certfp method = (- 1, certfp)"
  "rb_load_file_into_datum_t fs filename = Some d \<Longrightarrow> fst (crt_import_pem eng d) \<noteq> 0 \<Longrightarrow>
     rb_get_ssl_certfp_file eng fs u filename certfp method = (- 1, certfp)"
  by (auto simp: rb_get_ssl_certfp_file_def split: prod.splits)

text \<open>
  Claim C9, as the code has it. Every failure path leaves the caller's buffer as it was.
  In \<open>make_certfp\<close> an unrecognised method, a failing
  \<open>gnutls_x509_crt_get_fingerprint\<close>, a public key that cannot be initialised, imported
  or exported, and a failing \<open>gnutls_hash_fast\<close> each return length 0. In
  \<open>rb_get_ssl_certfp_file\<close> a file that does not load, a failing
  \<open>gnutls_x509_crt_init\<close> and a certificate that does not parse each return -1.
\<close>

theorem certfp_failures_leave_buffer:
  "(certfp_method meth = None \<longrightarrow> make_certfp eng u cert certfp meth = (0, certfp))
   \<and> (certfp_method meth = Some (algo, len, False)
        \<and> fst (crt_get_fingerprint eng cert algo (u_digest_size u)) < 0 \<longrightarrow>
        make_certfp eng u cert certfp meth = (0, certfp))
   \<and> (certfp_method meth = Some (algo, len, True)
        \<and> (pubkey_init eng \<noteq> GNUTLS_E_SUCCESS
           \<or> pubkey_import_x509 eng cert \<noteq> GNUTLS_E_SUCCESS
           \<or> fst (pubkey_export eng cert 0) \<noteq> GNUTLS_E_SHORT_MEMORY_BUFFER
           \<or> fst (pubkey_export eng cert (fst (snd (pubkey_export eng cert 0))))
                \<noteq> GNUTLS_E_SUCCESS) \<longrightarrow>
        make_certfp eng u cert certfp meth = (0, certfp))
   \<and> (certfp_method meth = Some (algo, len, True)
        \<and> export_der_pubkey eng cert = Some (der, n)
        \<and> fst (hash_fast eng algo (take n der)) \<noteq> 0 \<longrightarrow>
        make_certfp eng u cert certfp meth = (0, certfp))
   \<and> (rb_load_file_into_datum_t fs filename = None \<longrightarrow>
        rb_get_ssl_certfp_file eng fs u filename certfp meth = (- 1, certfp))
   \<and> (rb_load_file_into_datum_t fs filename = Some d
        \<and> (crt_init eng < 0 \<or> fst (crt_import_pem eng d) \<noteq> 0) \<longrightarrow>
        rb_get_ssl_certfp_file eng fs u filename certfp meth = (- 1, certfp))"
  using export_der_pubkey_failure [of eng cert]
  by (auto simp: make_certfp_unknown_method make_certfp_fingerprint_failure
      make_certfp_export_failure make_certfp_hash_failure certfp_file_failures)

theorem certfp_failures_leave_buffer_witness:
  "make_certfp ex_fp_engine ex_stack_large ex_cert ex_certfp 77 = (0, ex_certfp)
   \<and> make_certfp ex_fp_engine ex_stack_zero ex_cert ex_certfp RB_SSL_CERTFP_METH_CERT_SHA1
       = (0, ex_certfp)
   \<and> make_certfp (ex_fp_engine\<lparr>pubkey_init := - 1\<rparr>) ex_stack_large ex_cert ex_certfp
       RB_SSL_CERTFP_METH_SPKI_SHA256 = (0, ex_certfp)
   \<and> make_certfp (ex_fp_engine\<lparr>hash_fast := (\<lambda>a b. (- 1, []))\<rparr>) ex_stack_large ex_cert
       ex_certfp RB_SSL_CERTFP_METH_SPKI_SHA512 = (0, ex_certfp)
   \<and> rb_get_ssl_certfp_file ex_fp_engine ex_fs ex_stack_large ''missing.pem'' ex_certfp
       RB_SSL_CERTFP_METH_CERT_SHA256 = (- 1, ex_certfp)
   \<and> rb_get_ssl_certfp_file (ex_fp_engine\<lparr>crt_import_pem := (\<lambda>d. (- 34, []))\<rparr>) ex_fs
       ex_stack_large ''cert.pem'' ex_certfp RB_SSL_CERTFP_METH_CERT_SHA256 = (- 1, ex_certfp)"
proof -
  have c1: "make_certfp ex_fp_engine ex_stack_large ex_cert ex_certfp 77 = (0, ex_certfp)"
    using certfp_failures_leave_buffer
      [where meth = 77 and eng = ex_fp_engine and u = ex_stack_large
        and cert = ex_cert and certfp = ex_certfp, THEN conjunct1]
    by (simp add: certfp_method_values)
  have "fst (crt_get_fingerprint ex_fp_engine ex_cert GNUTLS_DIG_SHA1
               (u_digest_size ex_stack_zero)) < 0"
    by (simp add: ex_fp_engine_def ex_stack_zero_def ex_digest_length_def
        GNUTLS_E_SHORT_MEMORY_BUFFER_def)
  then have c2: "make_certfp ex_fp_engine ex_stack_zero ex_cert ex_certfp
                   RB_SSL_CERTFP_METH_CERT_SHA1 = (0, ex_certfp)"
    using certfp_failures_leave_buffer
      [where meth = RB_SSL_CERTFP_METH_CERT_SHA1 and eng = ex_fp_engine
        and u = ex_stack_zero and cert = ex_cert and certfp = ex_certfp
        and algo = GNUTLS_DIG_SHA1 and len = RB_SSL_CERTFP_LEN_SHA1,
        THEN conjunct2, THEN conjunct1]
    by (simp add: certfp_method_values)
  have c3: "make_certfp (ex_fp_engine\<lparr>pubkey_init := - 1\<rparr>) ex_stack_large ex_cert ex_certfp
              RB_SSL_CERTFP_METH_SPKI_SHA256 = (0, ex_certfp)"
    using certfp_failures_leave_buffer
      [where meth = RB_SSL_CERTFP_METH_SPKI_SHA256
        and eng = "ex_fp_engine\<lparr>pubkey_init := - 1\<rparr>" and u = ex_stack_large
        and cert = ex_cert and certfp = ex_certfp
        and algo = GNUTLS_DIG_SHA256 and len = RB_SSL_CERTFP_LEN_SHA256,
        THEN conjunct2, THEN conjunct2, THEN conjunct1]
    by (simp add: certfp_method_values GNUTLS_E_SUCCESS_def)
  have "export_der_pubkey (ex_fp_engine\<lparr>hash_fast := (\<lambda>a b. (- 1, []))\<rparr>) ex_cert
          = Some ([1, 2], 2)"
    by (simp add: export_der_pubkey_def ex_fp_engine_def ex_cert_def memcpy_def
        GNUTLS_E_SHORT_MEMORY_BUFFER_def GNUTLS_E_SUCCESS_def)
  then have c4: "make_certfp (ex_fp_engine\<lparr>hash_fast := (\<lambda>a b. (- 1, []))\<rparr>) ex_stack_large
                   ex_cert ex_certfp RB_SSL_CERTFP_METH_SPKI_SHA512 = (0, ex_certfp)"
    using certfp_failures_leave_buffer
      [where meth = RB_SSL_CERTFP_METH_SPKI_SHA512
        and eng = "ex_fp_engine\<lparr>hash_fast := (\<lambda>a b. (- 1, []))\<rparr>" and u = ex_stack_large
        and cert = ex_cert and certfp = ex_certfp
        and algo = GNUTLS_DIG_SHA512 and len = RB_SSL_CERTFP_LEN_SHA512
        and der = "[1, 2]" and n = 2,
        THEN conjunct2, THEN conjunct2, THEN conjunct2, THEN conjunct1]
    by (simp add: certfp_method_values)
  have c5: "rb_get_ssl_certfp_file ex_fp_engine ex_fs ex_stack_large ''missing.pem'' ex_certfp
              RB_SSL_CERTFP_METH_CERT_SHA256 = (- 1, ex_certfp)"
    using certfp_failures_leave_buffer
      [where meth = RB_SSL_CERTFP_METH_CERT_SHA256
        and eng = ex_fp_engine and u = ex_stack_large and certfp = ex_certfp
        and fs = ex_fs and filename = "''missing.pem''",
        THEN conjunct2, THEN conjunct2, THEN conjunct2, THEN conjunct2, THEN conjunct1]
    by (simp add: load_ex)
  have c6: "rb_get_ssl_certfp_file (ex_fp_engine\<lparr>crt_import_pem := (\<lambda>d. (- 34, []))\<rparr>) ex_fs
              ex_stack_large ''cert.pem'' ex_certfp RB_SSL_CERTFP_METH_CERT_SHA256
              = (- 1, ex_certfp)"
    using certfp_failures_leave_buffer
      [where meth = RB_SSL_CERTFP_METH_CERT_SHA256
        and eng = "ex_fp_engine\<lparr>crt_import_pem := (\<lambda>d. (- 34, []))\<rparr>"
        and u = ex_stack_large and certfp = ex_certfp
        and fs = ex_fs and filename = "''cert.pem''" and d = "[1, 2, 3]",
        THEN conjunct2, THEN conjunct2, THEN conjunct2, THEN conjunct2, THEN conjunct2]
    by (simp add: load_ex)
  from c1 c2 c3 c4 c5 c6 show ?thesis by simp
qed

text \<open>
  Claim C9 as stated fails for the file-based variant: on a file that does not load,
  \<open>rb_get_ssl_certfp_file\<close> returns -1, not a length of zero.
\<close>

theorem certfp_file_missing_returns_minus_one:
  "rb_load_file_into_datum_t ex_fs ''missing.pem'' = None
   \<and> fst (rb_get_ssl_certfp_file ex_fp_engine ex_fs ex_stack_large ''missing.pem'' ex_certfp
            RB_SSL_CERTFP_METH_CERT_SHA256) = - 1
   \<and> fst (rb_get_ssl_certfp_file ex_fp_engine ex_fs ex_stack_large ''missing.pem'' ex_certfp
            RB_SSL_CERTFP_METH_CERT_SHA256) \<noteq> 0"
  by (simp add: rb_get_ssl_certfp_file_def load_ex)

text \<open>
  Claim C10 says that two invocations of \<open>make_certfp\<close> on the same certificate with the
  same method return the same length and bytes. \<open>make_certfp\<close> passes the address of its
  local \<open>digest_size\<close> to \<open>gnutls_x509_crt_get_fingerprint\<close> without ever assigning it,
  and the engine reads it as the size of the buffer. With an engine that checks that
  size, the same certificate and method give length 0 and an untouched buffer when the
  stack held 0 there, and length 32 with the digest when it held a large number.
\<close>

theorem make_certfp_depends_on_stack:
  "make_certfp ex_fp_engine ex_stack_zero ex_cert ex_certfp RB_SSL_CERTFP_METH_CERT_SHA256
     = (0, ex_certfp)
   \<and> make_certfp ex_fp_engine ex_stack_large ex_cert ex_certfp RB_SSL_CERTFP_METH_CERT_SHA256
     = (32, replicate 32 6 @ replicate 32 0xEE)"
  by (simp add: make_certfp_def certfp_method_values ex_fp_engine_def ex_stack_zero_def
      ex_stack_large_def ex_digest_length_def ex_digest_def ex_cert_def ex_certfp_def memcpy_def
      RB_SSL_CERTFP_LEN_def RB_SSL_CERTFP_LEN_SHA256_def GNUTLS_E_SHORT_MEMORY_BUFFER_def)

text \<open>
  On success the length is the one of the method and the buffer receives that many bytes
  of the digest. For the SPKI methods the result does not depend on what the stack held;
  for the certificate methods it depends on it through the engine call only.
\<close>

lemma certfp_method_Some:
  "certfp_method m = Some (algo, len, spki) \<Longrightarrow>
   (algo, len) \<in> {(GNUTLS_DIG_SHA1, RB_SSL_CERTFP_LEN_SHA1),
                   (GNUTLS_DIG_SHA256, RB_SSL_CERTFP_LEN_SHA256),
                   (GNUTLS_DIG_SHA512, RB_SSL_CERTFP_LEN_SHA512)}"
  by (auto simp: certfp_method_def split: if_splits)

lemma make_certfp_length:
  "fst (make_certfp eng u cert certfp m) = 0
   \<or> (\<exists>algo len spki. certfp_method m = Some (algo, len, spki)
         \<and> fst (make_certfp eng u cert certfp m) = int len)"
  by (auto simp: make_certfp_def Let_def split: option.splits prod.splits if_splits)

lemma make_certfp_spki_success:
  assumes "certfp_method m = Some (algo, len, True)"
    and "export_der_pubkey eng cert = Some (der, n)"
    and "hash_fast eng algo (take n der) = (0, w)"
    and "len \<le> length w" and "len \<noteq> 0"
  shows "make_certfp eng u cert certfp m = (int len, take len w @ drop len certfp)"
  using assms by (simp add: make_certfp_def memcpy_def Let_def)

lemma make_certfp_cert_success:
  assumes "certfp_method m = Some (algo, len, False)"
    and "crt_get_fingerprint eng cert algo (u_digest_size u) = (r, w)"
    and "0 \<le> r" and "len \<le> length w" and "len \<noteq> 0"
  shows "make_certfp eng u cert certfp m = (int len, take len w @ drop len certfp)"
  using assms by (simp add: make_certfp_def memcpy_def Let_def)

end
